theory Spec2Isabelle
  imports Complex_Main "HOL-Library.Word"
begin

text \<open>
  A shallow embedding of \<open>src/dynamixel_hardware/src/dynamixel_hardware.cpp\<close>, the
  ros2_control driver for Dynamixel servos: the joint model, the control-mode state
  machine with its torque bracket, the cyclic \<open>read\<close> and \<open>write\<close>, and the sizing and
  assignment passes of \<open>configure\<close>.  The workbench (the bus) is a parameter; the calls
  made on it are recorded in a history, so that properties of the order of bus calls can
  be stated.
\<close>

section \<open>Data model of \<open>dynamixel_hardware.cpp\<close>\<close>

subsection \<open>Machine values\<close>

type_synonym uint8 = "8 word"
type_synonym int32 = "32 word"

text \<open>
  A C++ \<open>double\<close>.  The driver never does arithmetic on its doubles: it stores them,
  copies them, hands them to the conversion routines of the workbench, compares them with
  \<open>0.0\<close>.  The model therefore keeps the IEEE classes apart and nothing more: \<open>Fin 0\<close>
  is \<open>+0.0\<close>, \<open>NegZero\<close> is \<open>-0.0\<close>.
  Equality of the datatype is identity of the stored value (what a copy preserves), not
  the operator \<open>==\<close> of C++.
\<close>

datatype double = NaN | PosInf | NegInf | NegZero | Fin real

text \<open>The C++ comparison \<open>x != 0.0\<close>: true of NaN, false of both zeros.\<close>

fun ne_zero :: "double \<Rightarrow> bool" where
  "ne_zero NaN = True"
| "ne_zero PosInf = True"
| "ne_zero NegInf = True"
| "ne_zero NegZero = False"
| "ne_zero (Fin r) = (r \<noteq> 0)"

text \<open>The C++ comparison \<open>x == 0.0\<close>: false of NaN.\<close>

definition eq_zero :: "double \<Rightarrow> bool" where
  "eq_zero x = (x = NegZero \<or> x = Fin 0)"

subsection \<open>Joints\<close>

text \<open>
  Modelled from the spec: the structs \<open>JointValue\<close> and \<open>Joint\<close> and the enums
  \<open>ControlMode\<close> and \<open>return_type\<close> are declared in \<open>dynamixel_hardware.hpp\<close> and in
  \<open>hardware_interface\<close>, which are not among the sources.  Their fields and members are the
  ones the spec lists and the code uses.
\<close>

record JointValue =
  position :: double
  velocity :: double
  effort :: double

record Joint =
  name :: string
  state :: JointValue
  command :: JointValue

datatype ControlMode = Position | Velocity | CurrentBasedPosition | Unset

datatype return_type = OK | ERROR

subsection \<open>The workbench (external bus service)\<close>

text \<open>
  The calls the driver makes on \<open>dynamixel_workbench_\<close> that reach the bus.  The first
  argument of the sync calls is the handler index.
\<close>

datatype bus_call =
    TorqueOn uint8
  | TorqueOff uint8
  | SetVelocityControlMode uint8
  | SetPositionControlMode uint8
  | SetCurrentBasedPositionControlMode uint8
  | ItemWrite uint8 string int32
  | SyncWrite uint8 "uint8 list" "int32 list"
  | SyncRead uint8 "uint8 list"
  | GetSyncReadData uint8 "uint8 list" nat nat

text \<open>
  One entry of the history of bus calls: the call, whether the workbench reported success,
  and the value \<open>torque_enabled_\<close> had when the call was issued.
\<close>

record bus_event =
  ev_call :: bus_call
  ev_ok :: bool
  ev_torque :: bool

text \<open>
  The workbench is outside the repository.  It is a parameter of every operation: the
  result of a bus call may depend on the whole history of calls (\<open>bus_ok\<close>), the data an
  extraction call stores into its output array is given per index (\<open>bus_data\<close>, \<open>None\<close>
  where the call leaves the entry alone), and the unit conversions and the cast to
  \<open>float\<close> are arbitrary functions.
\<close>

record workbench =
  bus_ok :: "bus_event list \<Rightarrow> bus_call \<Rightarrow> bool"
  bus_data :: "bus_event list \<Rightarrow> bus_call \<Rightarrow> nat \<Rightarrow> int32 option"
  convertValue2Radian :: "uint8 \<Rightarrow> int32 \<Rightarrow> double"
  convertValue2Velocity :: "uint8 \<Rightarrow> int32 \<Rightarrow> double"
  convertValue2Current :: "int32 \<Rightarrow> double"
  convertRadian2Value :: "uint8 \<Rightarrow> double \<Rightarrow> int32"
  convertVelocity2Value :: "uint8 \<Rightarrow> double \<Rightarrow> int32"
  convertCurrent2Value :: "uint8 \<Rightarrow> double \<Rightarrow> int32"
  static_cast_float :: "double \<Rightarrow> double"

subsection \<open>The members of \<open>DynamixelHardware\<close>\<close>

text \<open>
  \<open>control_items\<close> stands for the map \<open>control_items_\<close> (item name to address and data
  length), which \<open>configure\<close> fills before \<open>read\<close> can run.  \<open>bus_log\<close> is the history of
  the calls made on \<open>dynamixel_workbench_\<close>.
\<close>

record hw =
  joints :: "Joint list"
  virtual_joints :: "Joint list"
  joint_ids :: "uint8 list"
  control_mode :: ControlMode
  gripper_control_mode :: ControlMode
  torque_enabled :: bool
  use_dummy :: bool
  gripper_id :: uint8
  gripper_current_limit :: double
  control_items :: "string \<Rightarrow> nat \<times> nat"
  bus_log :: "bus_event list"

definition kGoalPositionIndex :: uint8 where "kGoalPositionIndex = 0"
definition kGoalVelocityIndex :: uint8 where "kGoalVelocityIndex = 1"
definition kPresentPositionVelocityCurrentIndex :: uint8 where
  "kPresentPositionVelocityCurrentIndex = 0"
definition kGoalCurrentItem :: string where "kGoalCurrentItem = ''Goal_Current''"
definition kPresentPositionItem :: string where "kPresentPositionItem = ''Present_Position''"
definition kPresentVelocityItem :: string where "kPresentVelocityItem = ''Present_Velocity''"
definition kPresentCurrentItem :: string where "kPresentCurrentItem = ''Present_Current''"

section \<open>Operations\<close>

subsection \<open>Bus calls\<close>

text \<open>A call on the workbench: ask the environment, append the entry to the history.\<close>

definition call :: "workbench \<Rightarrow> bus_call \<Rightarrow> hw \<Rightarrow> bool \<times> hw" where
  "call w c s =
     (let ok = bus_ok w (bus_log s) c
      in (ok, s\<lparr>bus_log := bus_log s @
                  [\<lparr>ev_call = c, ev_ok = ok, ev_torque = torque_enabled s\<rparr>]\<rparr>))"

text \<open>
  The loop \<open>for (i ...) { if (!workbench.f(id_i, &log)) { return ERROR; } }\<close> that
  \<open>enable_torque\<close> and \<open>set_control_mode\<close> share: \<open>False\<close> is the early return.
\<close>

fun for_each_id :: "workbench \<Rightarrow> (uint8 \<Rightarrow> bus_call) \<Rightarrow> uint8 list \<Rightarrow> hw \<Rightarrow> bool \<times> hw" where
  "for_each_id w f [] s = (True, s)"
| "for_each_id w f (i # ids) s =
     (case call w (f i) s of
        (True, s') \<Rightarrow> for_each_id w f ids s'
      | (False, s') \<Rightarrow> (False, s'))"

subsection \<open>\<open>reset_command\<close>\<close>

definition reset_joint :: "Joint \<Rightarrow> Joint" where
  "reset_joint j =
     j\<lparr>command := (command j)\<lparr>position := position (state j),
                                velocity := Fin 0, effort := Fin 0\<rparr>\<rparr>"

definition reset_command :: "hw \<Rightarrow> return_type \<times> hw" where
  "reset_command s =
     (OK, s\<lparr>joints := map reset_joint (joints s),
            virtual_joints := map reset_joint (virtual_joints s)\<rparr>)"

subsection \<open>\<open>enable_torque\<close>\<close>

text \<open>
  The torque loops run \<open>i\<close> over \<open>joints_.size()\<close> and read \<open>joint_ids_[i]\<close>; \<open>configure\<close>
  gives both vectors the same size.
\<close>

definition torque_ids :: "hw \<Rightarrow> uint8 list" where
  "torque_ids s = map (\<lambda>i. joint_ids s ! i) [0..<length (joints s)]"

definition enable_torque :: "workbench \<Rightarrow> bool \<Rightarrow> hw \<Rightarrow> return_type \<times> hw" where
  "enable_torque w enabled s =
     (if enabled \<and> \<not> torque_enabled s then
        (case for_each_id w TorqueOn (torque_ids s) s of
           (False, s') \<Rightarrow> (ERROR, s')
         | (True, s') \<Rightarrow> (OK, (snd (reset_command s'))\<lparr>torque_enabled := enabled\<rparr>))
      else if \<not> enabled \<and> torque_enabled s then
        (case for_each_id w TorqueOff (torque_ids s) s of
           (False, s') \<Rightarrow> (ERROR, s')
         | (True, s') \<Rightarrow> (OK, s'\<lparr>torque_enabled := enabled\<rparr>))
      else (OK, s\<lparr>torque_enabled := enabled\<rparr>))"

subsection \<open>\<open>set_control_mode\<close>\<close>

text \<open>
  Every transition of \<open>set_control_mode\<close> is bracketed by
  \<open>bool torque_enabled = torque_enabled_; if (torque_enabled) { enable_torque(false); }\<close>
  and \<open>if (torque_enabled) { enable_torque(true); }\<close>.  The results of these nested calls
  are dropped, as in the source.
\<close>

definition release_torque :: "workbench \<Rightarrow> hw \<Rightarrow> hw" where
  "release_torque w s = (if torque_enabled s then snd (enable_torque w False s) else s)"

definition restore_torque :: "workbench \<Rightarrow> bool \<Rightarrow> hw \<Rightarrow> hw" where
  "restore_torque w was_enabled s = (if was_enabled then snd (enable_torque w True s) else s)"

text \<open>
  The Velocity branch and the Position branch of \<open>set_control_mode\<close> are the same text
  up to the mode and the mode-set call; \<open>mode_transition\<close> is that text.  \<open>ERROR\<close> is the
  early return; \<open>OK\<close> falls through to the gripper block.
\<close>

definition mode_transition ::
  "workbench \<Rightarrow> (uint8 \<Rightarrow> bus_call) \<Rightarrow> ControlMode \<Rightarrow> hw \<Rightarrow> return_type \<times> hw" where
  "mode_transition w f m s =
     (let was_enabled = torque_enabled s;
          s1 = release_torque w s
      in case for_each_id w f (joint_ids s1) s1 of
           (False, s2) \<Rightarrow> (ERROR, s2)
         | (True, s2) \<Rightarrow> (OK, restore_torque w was_enabled (s2\<lparr>control_mode := m\<rparr>)))"

text \<open>The gripper block (lines 519 to 546).\<close>

definition gripper_transition :: "workbench \<Rightarrow> bool \<Rightarrow> hw \<Rightarrow> return_type \<times> hw" where
  "gripper_transition w force_set s =
     (if gripper_id s \<noteq> 255 \<and>
         (force_set \<or> gripper_control_mode s \<noteq> CurrentBasedPosition) then
        (let was_enabled = torque_enabled s;
             s1 = release_torque w s
         in case call w (SetCurrentBasedPositionControlMode (gripper_id s1)) s1 of
              (False, s2) \<Rightarrow> (ERROR, s2)
            | (True, s2) \<Rightarrow>
                (let current = convertCurrent2Value w (gripper_id s2) (gripper_current_limit s2)
                 in case call w (ItemWrite (gripper_id s2) kGoalCurrentItem current) s2 of
                      (False, s3) \<Rightarrow> (ERROR, s3)
                    | (True, s3) \<Rightarrow>
                        (OK, restore_torque w was_enabled
                               (s3\<lparr>gripper_control_mode := CurrentBasedPosition\<rparr>))))
      else (OK, s))"

text \<open>The group block (lines 476 to 517).\<close>

definition group_transition ::
  "workbench \<Rightarrow> ControlMode \<Rightarrow> bool \<Rightarrow> hw \<Rightarrow> return_type \<times> hw" where
  "group_transition w mode force_set s =
     (if mode = Velocity \<and> (force_set \<or> control_mode s \<noteq> Velocity) then
        mode_transition w SetVelocityControlMode Velocity s
      else if mode = Position \<and> (force_set \<or> control_mode s \<noteq> Position) then
        mode_transition w SetPositionControlMode Position s
      else if control_mode s \<noteq> Velocity \<and> control_mode s \<noteq> Position then
        (ERROR, s)
      else (OK, s))"

definition set_control_mode ::
  "workbench \<Rightarrow> ControlMode \<Rightarrow> bool \<Rightarrow> hw \<Rightarrow> return_type \<times> hw" where
  "set_control_mode w mode force_set s =
     (case group_transition w mode force_set s of
        (ERROR, s1) \<Rightarrow> (ERROR, s1)
      | (OK, s1) \<Rightarrow> gripper_transition w force_set s1)"

subsection \<open>\<open>write\<close>\<close>

text \<open>
  \<open>std::vector<uint8_t> ids(joints_.size(), 0)\<close> followed by the copy of \<open>joint_ids_\<close>
  into it.  (A longer \<open>joint_ids_\<close> would be copied past the end of the buffer; \<open>configure\<close>
  gives both vectors the same size.)
\<close>

definition ids_buffer :: "hw \<Rightarrow> uint8 list" where
  "ids_buffer s =
     (let n = length (joints s)
      in take n (joint_ids s) @ replicate (n - length (joint_ids s)) 0)"

definition loop_back :: "Joint \<Rightarrow> Joint" where
  "loop_back j =
     j\<lparr>state := (state j)\<lparr>position := position (command j),
                            velocity := velocity (command j),
                            effort := effort (command j)\<rparr>\<rparr>"

definition loop_back_position :: "Joint \<Rightarrow> Joint" where
  "loop_back_position j = j\<lparr>state := (state j)\<lparr>position := position (command j)\<rparr>\<rparr>"

text \<open>
  The raw values of one sync write: \<open>commands[i] = convert(ids[i], (float) field(joints_[i]))\<close>
  for \<open>i\<close> below \<open>ids.size()\<close>, which is \<open>joints_.size()\<close>.
\<close>

definition raw_commands ::
  "workbench \<Rightarrow> (uint8 \<Rightarrow> double \<Rightarrow> int32) \<Rightarrow> (JointValue \<Rightarrow> double) \<Rightarrow> uint8 list \<Rightarrow>
   Joint list \<Rightarrow> int32 list" where
  "raw_commands w conv field ids js =
     map (\<lambda>(i, j). conv i (static_cast_float w (field (command j)))) (zip ids js)"

text \<open>
  Modelled from the spec: \<open>write\<close> calls \<open>set_control_mode\<close> with one argument, and the
  default of \<open>force_set\<close> is declared in the header, which is not among the sources; the
  spec says "no force", so the default is \<open>False\<close>.  The result of \<open>set_control_mode\<close> is
  dropped, and so is the result of \<open>syncWrite\<close>, which is only logged.
\<close>

definition write' :: "workbench \<Rightarrow> hw \<Rightarrow> return_type \<times> hw" where
  "write' w s =
     (let s1 = s\<lparr>virtual_joints := map loop_back (virtual_joints s)\<rparr>
      in if use_dummy s1 then
           (OK, s1\<lparr>joints := map loop_back_position (joints s1)\<rparr>)
         else
           (let ids = ids_buffer s1
            in if list_ex (\<lambda>j. ne_zero (velocity (command j))) (joints s1) then
                 (let s2 = snd (set_control_mode w Velocity False s1);
                      commands = raw_commands w (convertVelocity2Value w) velocity ids (joints s2)
                  in (OK, snd (call w (SyncWrite kGoalVelocityIndex ids commands) s2)))
               else if list_ex (\<lambda>j. ne_zero (effort (command j))) (joints s1) then
                 (ERROR, s1)
               else
                 (let s2 = snd (set_control_mode w Position False s1);
                      commands = raw_commands w (convertRadian2Value w) position ids (joints s2)
                  in (OK, snd (call w (SyncWrite kGoalPositionIndex ids commands) s2)))))"

subsection \<open>\<open>read\<close>\<close>

text \<open>
  \<open>getSyncReadData\<close> stores into an output array that \<open>read\<close> has just filled with zeros;
  an entry the workbench does not store stays zero.  The call's result is only logged.
\<close>

definition getSyncReadData ::
  "workbench \<Rightarrow> uint8 \<Rightarrow> uint8 list \<Rightarrow> nat \<times> nat \<Rightarrow> hw \<Rightarrow> (bool \<times> int32 list) \<times> hw" where
  "getSyncReadData w idx ids item s =
     (let c = GetSyncReadData idx ids (fst item) (snd item);
          data = map (\<lambda>i. case bus_data w (bus_log s) c i of Some v \<Rightarrow> v | None \<Rightarrow> 0)
                     [0..<length ids];
          (ok, s') = call w c s
      in ((ok, data), s'))"

definition store_state :: "workbench \<Rightarrow> Joint \<Rightarrow> uint8 \<Rightarrow> int32 \<Rightarrow> int32 \<Rightarrow> int32 \<Rightarrow> Joint" where
  "store_state w j i p v c =
     j\<lparr>state := (state j)\<lparr>position := convertValue2Radian w i p,
                            velocity := convertValue2Velocity w i v,
                            effort := convertValue2Current w c\<rparr>\<rparr>"

definition read :: "workbench \<Rightarrow> hw \<Rightarrow> return_type \<times> hw" where
  "read w s =
     (if use_dummy s then (OK, s)
      else
        (let ids = ids_buffer s;
             s1 = snd (call w (SyncRead kPresentPositionVelocityCurrentIndex ids) s);
             ((_, currents), s2) =
               getSyncReadData w kPresentPositionVelocityCurrentIndex ids
                 (control_items s1 kPresentCurrentItem) s1;
             ((_, velocities), s3) =
               getSyncReadData w kPresentPositionVelocityCurrentIndex ids
                 (control_items s2 kPresentVelocityItem) s2;
             ((_, positions), s4) =
               getSyncReadData w kPresentPositionVelocityCurrentIndex ids
                 (control_items s3 kPresentPositionItem) s3
         in (OK, s4\<lparr>joints :=
                      map (\<lambda>i. store_state w (joints s4 ! i) (ids ! i)
                                 (positions ! i) (velocities ! i) (currents ! i))
                          [0..<length ids]\<rparr>)))"

subsection \<open>\<open>configure\<close>: sizing and assignment of the joints\<close>

text \<open>
  Modelled from the spec: \<open>hardware_interface::ComponentInfo\<close>, one entry of
  \<open>info_.joints\<close>, is declared outside the sources; the code uses its name and its
  key/value parameters.
\<close>

record ComponentInfo =
  info_name :: string
  parameters :: "string \<rightharpoonup> string"

text \<open>
  What the C++ library contributes: \<open>std::stoi\<close> and \<open>std::stof\<close>, which throw on text
  they cannot convert (\<open>None\<close>), and the value of a default-constructed \<open>Joint\<close>, which
  the header fixes.
\<close>

record cxx_library =
  stoi :: "string \<Rightarrow> int option"
  stof :: "string \<Rightarrow> double option"
  Joint_default :: Joint

text \<open>
  The ways the assignment pass can stop: \<open>std::map::at\<close> on a missing key, a throwing
  conversion, and an index that is not below the size of the vector it subscripts (which
  C++ does not check; the model makes the lookup guarded).
\<close>

datatype config_error =
    map_at_out_of_range string
  | stoi_failed string
  | stof_failed string
  | joint_index_out_of_bounds nat
  | virtual_joint_index_out_of_bounds nat

definition quiet_NaN_value :: JointValue where
  "quiet_NaN_value = \<lparr>position = NaN, velocity = NaN, effort = NaN\<rparr>"

text \<open>\<open>std::vector::resize(n, d)\<close>.\<close>

definition resize :: "nat \<Rightarrow> 'a \<Rightarrow> 'a list \<Rightarrow> 'a list" where
  "resize n d xs = take n xs @ replicate (n - length xs) d"

text \<open>Lines 101 to 112: the joint named \<open>gripper\<close>.\<close>

definition gripper_setup ::
  "cxx_library \<Rightarrow> ComponentInfo \<Rightarrow> nat \<Rightarrow> hw \<Rightarrow> config_error + hw" where
  "gripper_setup L c joint_index s =
     (let s1 = s\<lparr>gripper_id := joint_ids s ! joint_index\<rparr>
      in case parameters c ''current_limit'' of
           None \<Rightarrow> Inr s1
         | Some limit_text \<Rightarrow>
             (case stof L limit_text of
                None \<Rightarrow> Inl (stof_failed limit_text)
              | Some limit \<Rightarrow> Inr (s1\<lparr>gripper_current_limit := limit\<rparr>)))"

text \<open>
  The assignment loop (lines 67 to 122).  In
  \<open>joint_ids_[joint_index] = std::stoi(info_.joints[i].parameters.at("id"))\<close> the right-hand
  side is evaluated first, so a missing or malformed id throws before the vector is
  subscripted.
\<close>

fun assign_joints ::
  "cxx_library \<Rightarrow> ComponentInfo list \<Rightarrow> nat \<Rightarrow> nat \<Rightarrow> hw \<Rightarrow> config_error + hw" where
  "assign_joints L [] joint_index virtual_joint_index s = Inr s"
| "assign_joints L (c # cs) joint_index virtual_joint_index s =
     (if parameters c ''is_virtual'' = Some ''true'' then
        (if virtual_joint_index < length (virtual_joints s) then
           assign_joints L cs joint_index (virtual_joint_index + 1)
             (s\<lparr>virtual_joints := (virtual_joints s)[virtual_joint_index :=
                  (virtual_joints s ! virtual_joint_index)
                    \<lparr>name := info_name c, state := quiet_NaN_value,
                     command := quiet_NaN_value\<rparr>]\<rparr>)
         else Inl (virtual_joint_index_out_of_bounds virtual_joint_index))
      else
        (case parameters c ''id'' of
           None \<Rightarrow> Inl (map_at_out_of_range ''id'')
         | Some id_text \<Rightarrow>
             (case stoi L id_text of
                None \<Rightarrow> Inl (stoi_failed id_text)
              | Some n \<Rightarrow>
                  (if joint_index < length (joint_ids s) \<and> joint_index < length (joints s) then
                     (let s1 = s\<lparr>joint_ids := (joint_ids s)[joint_index := word_of_int n],
                                 joints := (joints s)[joint_index :=
                                   (joints s ! joint_index)
                                     \<lparr>name := info_name c, state := quiet_NaN_value,
                                      command := quiet_NaN_value\<rparr>]\<rparr>
                      in case (if info_name c = ''gripper''
                               then gripper_setup L c joint_index s1 else Inr s1) of
                           Inl e \<Rightarrow> Inl e
                         | Inr s2 \<Rightarrow> assign_joints L cs (joint_index + 1) virtual_joint_index s2)
                   else Inl (joint_index_out_of_bounds joint_index)))))"

text \<open>
  Lines 50 to 122 of \<open>configure\<close>: the counting pass, the three \<open>resize\<close> calls and the
  assignment loop.  (The bus bring-up that follows is not modelled.)
\<close>

definition configure_joints ::
  "cxx_library \<Rightarrow> ComponentInfo list \<Rightarrow> hw \<Rightarrow> config_error + hw" where
  "configure_joints L info_joints s =
     (let num_joints = length (filter (\<lambda>j. parameters j ''is_virtual'' = None) info_joints);
          num_virtual_joints =
            length (filter (\<lambda>j. parameters j ''is_virtual'' \<noteq> None) info_joints);
          s1 = s\<lparr>joints := resize num_joints (Joint_default L) (joints s),
                  virtual_joints := resize num_virtual_joints (Joint_default L) (virtual_joints s),
                  joint_ids := resize num_joints 0 (joint_ids s)\<rparr>
      in assign_joints L info_joints 0 0 s1)"

section \<open>Vocabulary of the properties\<close>

text \<open>
  The entries an operation appends to the history: what \<open>bus_log s'\<close> holds beyond
  \<open>bus_log s\<close>.
\<close>

definition new_events :: "hw \<Rightarrow> hw \<Rightarrow> bus_event list" where
  "new_events s s' = drop (length (bus_log s)) (bus_log s')"

text \<open>
  \<open>steps P s s'\<close>: the history of \<open>s'\<close> is the history of \<open>s\<close> followed by entries that
  all satisfy \<open>P\<close>.
\<close>

definition steps :: "(bus_event \<Rightarrow> bool) \<Rightarrow> hw \<Rightarrow> hw \<Rightarrow> bool" where
  "steps P s s' = (\<exists>es. bus_log s' = bus_log s @ es \<and> (\<forall>e\<in>set es. P e))"

text \<open>Kinds of bus calls.\<close>

fun is_torque_call :: "bus_call \<Rightarrow> bool" where
  "is_torque_call (TorqueOn i) = True"
| "is_torque_call (TorqueOff i) = True"
| "is_torque_call c = False"

fun is_group_mode_set :: "bus_call \<Rightarrow> bool" where
  "is_group_mode_set (SetVelocityControlMode i) = True"
| "is_group_mode_set (SetPositionControlMode i) = True"
| "is_group_mode_set c = False"

fun is_mode_set :: "bus_call \<Rightarrow> bool" where
  "is_mode_set (SetVelocityControlMode i) = True"
| "is_mode_set (SetPositionControlMode i) = True"
| "is_mode_set (SetCurrentBasedPositionControlMode i) = True"
| "is_mode_set c = False"

text \<open>A state without its history.\<close>

definition unlogged :: "hw \<Rightarrow> hw" where
  "unlogged s = s\<lparr>bus_log := []\<rparr>"

text \<open>The bus never refuses a \<open>torqueOff\<close> call; likewise for \<open>torqueOn\<close>.\<close>

definition torque_off_ok :: "workbench \<Rightarrow> bool" where
  "torque_off_ok w = (\<forall>h i. bus_ok w h (TorqueOff i))"

definition torque_on_ok :: "workbench \<Rightarrow> bool" where
  "torque_on_ok w = (\<forall>h i. bus_ok w h (TorqueOn i))"

text \<open>
  From \<open>s\<close> to \<open>s'\<close> the joints are untouched, or \<open>reset_command\<close> has run on them.
\<close>

definition commands_kept_or_reset :: "hw \<Rightarrow> hw \<Rightarrow> bool" where
  "commands_kept_or_reset s s' =
     (joints s' = joints s \<and> virtual_joints s' = virtual_joints s \<or>
      joints s' = map reset_joint (joints s) \<and>
      virtual_joints s' = map reset_joint (virtual_joints s))"

fun is_gripper_call :: "bus_call \<Rightarrow> bool" where
  "is_gripper_call (SetCurrentBasedPositionControlMode i) = True"
| "is_gripper_call (ItemWrite i n v) = True"
| "is_gripper_call c = False"

text \<open>The two bus calls of the gripper block.\<close>

definition gripper_mode_call :: "hw \<Rightarrow> bus_call" where
  "gripper_mode_call s = SetCurrentBasedPositionControlMode (gripper_id s)"

definition gripper_current_call :: "workbench \<Rightarrow> hw \<Rightarrow> bus_call" where
  "gripper_current_call w s =
     ItemWrite (gripper_id s) kGoalCurrentItem
       (convertCurrent2Value w (gripper_id s) (gripper_current_limit s))"

text \<open>
  A sequence of \<open>set_control_mode\<close> calls, each with its mode and its force flag.
\<close>

fun set_control_mode_seq :: "workbench \<Rightarrow> (ControlMode \<times> bool) list \<Rightarrow> hw \<Rightarrow> hw" where
  "set_control_mode_seq w [] s = s"
| "set_control_mode_seq w ((mode, force_set) # cs) s =
     set_control_mode_seq w cs (snd (set_control_mode w mode force_set s))"

text \<open>The sync writes among a list of history entries, in order.\<close>

fun is_sync_write :: "bus_call \<Rightarrow> bool" where
  "is_sync_write (SyncWrite k ids vs) = True"
| "is_sync_write c = False"

definition sync_writes :: "bus_event list \<Rightarrow> bus_call list" where
  "sync_writes es = filter is_sync_write (map ev_call es)"

text \<open>
  The state after the first loop of \<open>write\<close>: every virtual joint has its command copied
  into its state.
\<close>

definition looped :: "hw \<Rightarrow> hw" where
  "looped s = s\<lparr>virtual_joints := map loop_back (virtual_joints s)\<rparr>"

text \<open>A workbench whose extraction calls store nothing into the output array.\<close>

definition stores_nothing :: "workbench \<Rightarrow> bool" where
  "stores_nothing w = (\<forall>h c i. bus_data w h c i = None)"

text \<open>
  A joint the assignment loop treats as virtual, and one the counting pass counts as
  virtual.
\<close>

definition assigned_virtual :: "ComponentInfo \<Rightarrow> bool" where
  "assigned_virtual c = (parameters c ''is_virtual'' = Some ''true'')"

definition counted_virtual :: "ComponentInfo \<Rightarrow> bool" where
  "counted_virtual c = (parameters c ''is_virtual'' \<noteq> None)"

text \<open>The conversions the device-backed branch makes for a joint do not throw.\<close>

definition device_parameters_parse :: "cxx_library \<Rightarrow> ComponentInfo \<Rightarrow> bool" where
  "device_parameters_parse L c =
     ((case parameters c ''id'' of None \<Rightarrow> False | Some t \<Rightarrow> stoi L t \<noteq> None) \<and>
      (info_name c \<noteq> ''gripper'' \<or>
       (case parameters c ''current_limit'' of None \<Rightarrow> True | Some t \<Rightarrow> stof L t \<noteq> None)))"

text \<open>The assignment loop stopped at an index out of bounds.\<close>

definition is_index_error :: "config_error + hw \<Rightarrow> bool" where
  "is_index_error r =
     (case r of
        Inl (joint_index_out_of_bounds k) \<Rightarrow> True
      | Inl (virtual_joint_index_out_of_bounds k) \<Rightarrow> True
      | _ \<Rightarrow> False)"

text \<open>
  The group block of \<open>set_control_mode\<close> runs a transition: the condition of its
  Velocity branch or of its Position branch holds.  Likewise for the gripper block.
\<close>

definition transition_due :: "ControlMode \<Rightarrow> bool \<Rightarrow> hw \<Rightarrow> bool" where
  "transition_due mode force_set s =
     (mode = Velocity \<and> (force_set \<or> control_mode s \<noteq> Velocity) \<or>
      mode = Position \<and> (force_set \<or> control_mode s \<noteq> Position))"

definition gripper_due :: "bool \<Rightarrow> hw \<Rightarrow> bool" where
  "gripper_due force_set s =
     (gripper_id s \<noteq> 255 \<and> (force_set \<or> gripper_control_mode s \<noteq> CurrentBasedPosition))"

text \<open>
  What \<open>write\<close> tests on the commands of the device-backed joints, and the mode its
  \<open>set_control_mode\<close> call asks for when it does not reject the cycle.
\<close>

definition velocity_commanded :: "hw \<Rightarrow> bool" where
  "velocity_commanded s = list_ex (\<lambda>j. ne_zero (velocity (command j))) (joints s)"

definition effort_commanded :: "hw \<Rightarrow> bool" where
  "effort_commanded s = list_ex (\<lambda>j. ne_zero (effort (command j))) (joints s)"

definition target_mode :: "hw \<Rightarrow> ControlMode" where
  "target_mode s = (if velocity_commanded s then Velocity else Position)"

text \<open>The bus never refuses a call.\<close>

definition accepts_all :: "workbench \<Rightarrow> bool" where
  "accepts_all w = (\<forall>h c. bus_ok w h c)"

text \<open>
  The value an output array of \<open>read\<close> holds at index \<open>i\<close> after the extraction call \<open>c\<close>
  made at history \<open>h\<close>: what the workbench stored there, or the zero the array was
  initialised with.
\<close>

definition extracted :: "workbench \<Rightarrow> bus_event list \<Rightarrow> bus_call \<Rightarrow> nat \<Rightarrow> int32" where
  "extracted w h c i = (case bus_data w h c i of Some v \<Rightarrow> v | None \<Rightarrow> 0)"

text \<open>
  The bus calls of \<open>read\<close> and the histories at which it makes them: the sync read at the
  history \<open>read\<close> starts with, then the extraction of the currents, of the velocities and
  of the positions, each after the entry of the call before it.
\<close>

definition sync_read_call :: "hw \<Rightarrow> bus_call" where
  "sync_read_call s = SyncRead kPresentPositionVelocityCurrentIndex (ids_buffer s)"

definition extraction :: "hw \<Rightarrow> string \<Rightarrow> bus_call" where
  "extraction s item =
     GetSyncReadData kPresentPositionVelocityCurrentIndex (ids_buffer s)
       (fst (control_items s item)) (snd (control_items s item))"

definition after_call :: "workbench \<Rightarrow> hw \<Rightarrow> bus_call \<Rightarrow> bus_event list \<Rightarrow> bus_event list" where
  "after_call w s c h = h @ [\<lparr>ev_call = c, ev_ok = bus_ok w h c, ev_torque = torque_enabled s\<rparr>]"

definition history_at_current :: "workbench \<Rightarrow> hw \<Rightarrow> bus_event list" where
  "history_at_current w s = after_call w s (sync_read_call s) (bus_log s)"

definition history_at_velocity :: "workbench \<Rightarrow> hw \<Rightarrow> bus_event list" where
  "history_at_velocity w s =
     after_call w s (extraction s kPresentCurrentItem) (history_at_current w s)"

definition history_at_position :: "workbench \<Rightarrow> hw \<Rightarrow> bus_event list" where
  "history_at_position w s =
     after_call w s (extraction s kPresentVelocityItem) (history_at_velocity w s)"

section \<open>Worked inputs\<close>

text \<open>
  A workbench for the worked examples.  Its conversions tell the raw zero, 0.0 and NaN
  from the rest; it stores no data; the behaviour of the bus is a parameter.
\<close>

definition demo_raw :: "uint8 \<Rightarrow> double \<Rightarrow> int32" where
  "demo_raw i d = (if d = Fin 0 then 0 else if d = NaN then 2 else 1)"

definition demo_phys :: "int32 \<Rightarrow> double" where
  "demo_phys v = (if v = 0 then Fin 0 else Fin 1)"

definition demo_workbench :: "(bus_event list \<Rightarrow> bus_call \<Rightarrow> bool) \<Rightarrow> workbench" where
  "demo_workbench ok =
     \<lparr>bus_ok = ok, bus_data = (\<lambda>h c i. None),
      convertValue2Radian = (\<lambda>i. demo_phys), convertValue2Velocity = (\<lambda>i. demo_phys),
      convertValue2Current = demo_phys,
      convertRadian2Value = demo_raw, convertVelocity2Value = demo_raw,
      convertCurrent2Value = demo_raw, static_cast_float = (\<lambda>d. d)\<rparr>"

text \<open>
  Four buses: one accepts every call, one refuses every call, one refuses \<open>torqueOff\<close>
  only, one refuses the mode-set calls of the group loop only.
\<close>

definition all_succeed :: "bus_event list \<Rightarrow> bus_call \<Rightarrow> bool" where
  "all_succeed h c = True"

definition all_fail :: "bus_event list \<Rightarrow> bus_call \<Rightarrow> bool" where
  "all_fail h c = False"

definition torque_off_fails :: "bus_event list \<Rightarrow> bus_call \<Rightarrow> bool" where
  "torque_off_fails h c = (case c of TorqueOff i \<Rightarrow> False | _ \<Rightarrow> True)"

definition mode_set_fails :: "bus_event list \<Rightarrow> bus_call \<Rightarrow> bool" where
  "mode_set_fails h c = (\<not> is_group_mode_set c)"

text \<open>
  Two drivers: an arm (id 1) and a virtual joint, torque enabled, Position mode, no
  gripper; and an arm (id 1) with a gripper (id 2), torque disabled, as \<open>configure\<close>
  leaves them before it forces Position mode.
\<close>

definition demo_value :: "double \<Rightarrow> double \<Rightarrow> double \<Rightarrow> JointValue" where
  "demo_value p v e = \<lparr>position = p, velocity = v, effort = e\<rparr>"

definition demo_arm :: "double \<Rightarrow> double \<Rightarrow> Joint" where
  "demo_arm v e =
     \<lparr>name = ''arm'', state = demo_value (Fin 1) (Fin 0) (Fin 0),
      command = demo_value (Fin 1) v e\<rparr>"

definition demo_gripper_hw :: hw where
  "demo_gripper_hw =
     \<lparr>joints = [demo_arm (Fin 2) (Fin 0),
                \<lparr>name = ''gripper'', state = demo_value (Fin 1) (Fin 0) (Fin 0),
                 command = demo_value (Fin 1) (Fin 0) (Fin 0)\<rparr>],
      virtual_joints = [],
      joint_ids = [1, 2], control_mode = Position, gripper_control_mode = Unset,
      torque_enabled = False, use_dummy = False, gripper_id = 2,
      gripper_current_limit = Fin 1, control_items = (\<lambda>n. (0, 4)), bus_log = []\<rparr>"

definition demo_hw :: hw where
  "demo_hw =
     \<lparr>joints = [demo_arm (Fin 2) (Fin 0)],
      virtual_joints = [\<lparr>name = ''virt'', state = demo_value (Fin 0) (Fin 0) (Fin 0),
                         command = demo_value (Fin 1) (Fin 2) (Fin 3)\<rparr>],
      joint_ids = [1], control_mode = Position, gripper_control_mode = Unset,
      torque_enabled = True, use_dummy = False, gripper_id = 255,
      gripper_current_limit = Fin 1, control_items = (\<lambda>n. (0, 4)), bus_log = []\<rparr>"

text \<open>
  A library for the worked examples, which converts the ids \<open>1\<close> and \<open>2\<close>; joint entries
  built from a name and a list of parameters; and a driver before \<open>configure\<close>.
\<close>

definition demo_library :: cxx_library where
  "demo_library =
     \<lparr>stoi = (\<lambda>t. if t = ''1'' then Some 1 else if t = ''2'' then Some 2 else None),
      stof = (\<lambda>t. None),
      Joint_default = \<lparr>name = [], state = demo_value (Fin 0) (Fin 0) (Fin 0),
                       command = demo_value (Fin 0) (Fin 0) (Fin 0)\<rparr>\<rparr>"

definition demo_info :: "string \<Rightarrow> (string \<times> string) list \<Rightarrow> ComponentInfo" where
  "demo_info n ps = \<lparr>info_name = n, parameters = map_of ps\<rparr>"

definition empty_hw :: hw where
  "empty_hw =
     \<lparr>joints = [], virtual_joints = [], joint_ids = [], control_mode = Position,
      gripper_control_mode = Unset, torque_enabled = False, use_dummy = False,
      gripper_id = 255, gripper_current_limit = Fin 1, control_items = (\<lambda>n. (0, 0)),
      bus_log = []\<rparr>"

definition gripper_calls_fail :: "bus_event list \<Rightarrow> bus_call \<Rightarrow> bool" where
  "gripper_calls_fail h c = (\<not> is_gripper_call c)"

text \<open>A bus for the worked examples that stores the raw value 5 at index 0 only.\<close>

definition demo_first_only :: "bus_event list \<Rightarrow> bus_call \<Rightarrow> nat \<Rightarrow> int32 option" where
  "demo_first_only h c i = (if i = 0 then Some 5 else None)"

section \<open>Lemmas\<close>

lemma steps_refl: "steps P s s"
  by (simp add: steps_def)

lemma steps_trans: "steps P s s1 \<Longrightarrow> steps P s1 s2 \<Longrightarrow> steps P s s2"
  by (auto simp: steps_def)

lemma steps_mono: "steps P s s' \<Longrightarrow> (\<And>e. P e \<Longrightarrow> Q e) \<Longrightarrow> steps Q s s'"
  by (auto simp: steps_def)

lemma steps_new_events: "steps P s s' \<Longrightarrow> e \<in> set (new_events s s') \<Longrightarrow> P e"
  by (auto simp: steps_def new_events_def)

subsection \<open>Bus calls and the per-device loop\<close>

lemma call_steps:
  "steps (\<lambda>e. ev_call e = c \<and> ev_torque e = torque_enabled s \<and> ev_ok e = fst (call w c s)) s (snd (call w c s))"
  by (simp add: call_def Let_def steps_def)

lemma unlogged_fields [simp]:
  "joints (unlogged s) = joints s"
  "virtual_joints (unlogged s) = virtual_joints s"
  "joint_ids (unlogged s) = joint_ids s"
  "control_mode (unlogged s) = control_mode s"
  "gripper_control_mode (unlogged s) = gripper_control_mode s"
  "torque_enabled (unlogged s) = torque_enabled s"
  "use_dummy (unlogged s) = use_dummy s"
  "gripper_id (unlogged s) = gripper_id s"
  "gripper_current_limit (unlogged s) = gripper_current_limit s"
  "control_items (unlogged s) = control_items s"
  by (simp_all add: unlogged_def)

lemma call_unlogged: "unlogged (snd (call w c s)) = unlogged s"
  by (simp add: call_def Let_def unlogged_def)

lemma for_each_id_unlogged: "unlogged (snd (for_each_id w f ids s)) = unlogged s"
proof (induction ids arbitrary: s)
  case Nil show ?case by simp
next
  case (Cons i ids)
  obtain ok s1 where c: "call w (f i) s = (ok, s1)" by (cases "call w (f i) s")
  then have s1: "unlogged s1 = unlogged s" using call_unlogged [of w "f i" s] by simp
  show ?case
  proof (cases ok)
    case True
    then show ?thesis using c s1 Cons.IH [of s1] by simp
  next
    case False
    then show ?thesis using c s1 by simp
  qed
qed

lemma for_each_id_fields:
  "joints (snd (for_each_id w f ids s)) = joints s"
  "virtual_joints (snd (for_each_id w f ids s)) = virtual_joints s"
  "joint_ids (snd (for_each_id w f ids s)) = joint_ids s"
  "control_mode (snd (for_each_id w f ids s)) = control_mode s"
  "gripper_control_mode (snd (for_each_id w f ids s)) = gripper_control_mode s"
  "torque_enabled (snd (for_each_id w f ids s)) = torque_enabled s"
  "use_dummy (snd (for_each_id w f ids s)) = use_dummy s"
  "gripper_id (snd (for_each_id w f ids s)) = gripper_id s"
  "gripper_current_limit (snd (for_each_id w f ids s)) = gripper_current_limit s"
  "control_items (snd (for_each_id w f ids s)) = control_items s"
  using for_each_id_unlogged [of w f ids s, THEN arg_cong, of joints]
    for_each_id_unlogged [of w f ids s, THEN arg_cong, of virtual_joints]
    for_each_id_unlogged [of w f ids s, THEN arg_cong, of joint_ids]
    for_each_id_unlogged [of w f ids s, THEN arg_cong, of control_mode]
    for_each_id_unlogged [of w f ids s, THEN arg_cong, of gripper_control_mode]
    for_each_id_unlogged [of w f ids s, THEN arg_cong, of torque_enabled]
    for_each_id_unlogged [of w f ids s, THEN arg_cong, of use_dummy]
    for_each_id_unlogged [of w f ids s, THEN arg_cong, of gripper_id]
    for_each_id_unlogged [of w f ids s, THEN arg_cong, of gripper_current_limit]
    for_each_id_unlogged [of w f ids s, THEN arg_cong, of control_items]
  by simp_all

text \<open>
  The entries of the loop: calls \<open>f i\<close> for ids of the list, all issued at the torque flag
  the loop started with, and all successful when the loop runs to its end.
\<close>

lemma for_each_id_steps:
  "steps (\<lambda>e. ev_call e \<in> f ` set ids \<and> ev_torque e = torque_enabled s \<and>
             (fst (for_each_id w f ids s) \<longrightarrow> ev_ok e))
     s (snd (for_each_id w f ids s))"
proof (induction ids arbitrary: s)
  case Nil show ?case by (simp add: steps_refl)
next
  case (Cons i ids)
  obtain ok s1 where c: "call w (f i) s = (ok, s1)" by (cases "call w (f i) s")
  have t: "torque_enabled s1 = torque_enabled s"
    using call_unlogged [of w "f i" s, THEN arg_cong, of torque_enabled] c by simp
  have st: "steps (\<lambda>e. ev_call e = f i \<and> ev_torque e = torque_enabled s \<and> ev_ok e = ok) s s1"
    using call_steps [of "f i" s w] c by simp
  show ?case
  proof (cases ok)
    case True
    have "steps (\<lambda>e. ev_call e \<in> f ` set ids \<and> ev_torque e = torque_enabled s1 \<and>
             (fst (for_each_id w f ids s1) \<longrightarrow> ev_ok e)) s1 (snd (for_each_id w f ids s1))"
      by (rule Cons.IH)
    then have "steps (\<lambda>e. ev_call e \<in> f ` set (i # ids) \<and> ev_torque e = torque_enabled s \<and>
             (fst (for_each_id w f (i # ids) s) \<longrightarrow> ev_ok e)) s1 (snd (for_each_id w f (i # ids) s))"
      using c True t by (auto elim!: steps_mono)
    moreover have "steps (\<lambda>e. ev_call e \<in> f ` set (i # ids) \<and> ev_torque e = torque_enabled s \<and>
             (fst (for_each_id w f (i # ids) s) \<longrightarrow> ev_ok e)) s s1"
      using st True by (auto elim!: steps_mono)
    ultimately show ?thesis by (blast intro: steps_trans)
  next
    case False
    then show ?thesis using c st by (auto elim!: steps_mono)
  qed
qed

lemma for_each_id_succeeds:
  "(\<And>h i. bus_ok w h (f i)) \<Longrightarrow> fst (for_each_id w f ids s)"
  by (induction ids arbitrary: s) (simp_all add: call_def Let_def)

subsection \<open>\<open>reset_command\<close> and \<open>enable_torque\<close>\<close>

lemma reset_command_fields:
  "fst (reset_command s) = OK"
  "joints (snd (reset_command s)) = map reset_joint (joints s)"
  "virtual_joints (snd (reset_command s)) = map reset_joint (virtual_joints s)"
  "joint_ids (snd (reset_command s)) = joint_ids s"
  "control_mode (snd (reset_command s)) = control_mode s"
  "gripper_control_mode (snd (reset_command s)) = gripper_control_mode s"
  "torque_enabled (snd (reset_command s)) = torque_enabled s"
  "use_dummy (snd (reset_command s)) = use_dummy s"
  "gripper_id (snd (reset_command s)) = gripper_id s"
  "gripper_current_limit (snd (reset_command s)) = gripper_current_limit s"
  "control_items (snd (reset_command s)) = control_items s"
  "bus_log (snd (reset_command s)) = bus_log s"
  by (simp_all add: reset_command_def)

lemma reset_joint_fields:
  "name (reset_joint j) = name j"
  "state (reset_joint j) = state j"
  "position (command (reset_joint j)) = position (state j)"
  "velocity (command (reset_joint j)) = Fin 0"
  "effort (command (reset_joint j)) = Fin 0"
  by (simp_all add: reset_joint_def)

lemma reset_joint_idem: "reset_joint (reset_joint j) = reset_joint j"
  by (simp add: reset_joint_def)

lemma enable_torque_cases:
  obtains
    (on_fail) "b" "\<not> torque_enabled s" "\<not> fst (for_each_id w TorqueOn (torque_ids s) s)"
      "enable_torque w b s = (ERROR, snd (for_each_id w TorqueOn (torque_ids s) s))"
  | (on_ok) "b" "\<not> torque_enabled s" "fst (for_each_id w TorqueOn (torque_ids s) s)"
      "enable_torque w b s =
        (OK, (snd (reset_command (snd (for_each_id w TorqueOn (torque_ids s) s))))\<lparr>torque_enabled := True\<rparr>)"
  | (off_fail) "\<not> b" "torque_enabled s" "\<not> fst (for_each_id w TorqueOff (torque_ids s) s)"
      "enable_torque w b s = (ERROR, snd (for_each_id w TorqueOff (torque_ids s) s))"
  | (off_ok) "\<not> b" "torque_enabled s" "fst (for_each_id w TorqueOff (torque_ids s) s)"
      "enable_torque w b s = (OK, (snd (for_each_id w TorqueOff (torque_ids s) s))\<lparr>torque_enabled := False\<rparr>)"
  | (same) "b = torque_enabled s" "enable_torque w b s = (OK, s)"
proof (cases "b = torque_enabled s")
  case True
  then have "enable_torque w b s = (OK, s)" by (cases b) (simp_all add: enable_torque_def)
  with True show ?thesis by (rule same)
next
  case False
  show ?thesis
  proof (cases b)
    case True
    with False have t: "\<not> torque_enabled s" by simp
    show ?thesis
    proof (cases "for_each_id w TorqueOn (torque_ids s) s")
      case (Pair ok s1)
      show ?thesis
      proof (cases ok)
        case True
        with Pair t \<open>b\<close> show ?thesis by (intro on_ok) (simp_all add: enable_torque_def)
      next
        case False
        with Pair t \<open>b\<close> show ?thesis by (intro on_fail) (simp_all add: enable_torque_def)
      qed
    qed
  next
    case b: False
    with False have t: "torque_enabled s" by simp
    show ?thesis
    proof (cases "for_each_id w TorqueOff (torque_ids s) s")
      case (Pair ok s1)
      show ?thesis
      proof (cases ok)
        case True
        with Pair t b show ?thesis by (intro off_ok) (simp_all add: enable_torque_def)
      next
        case False
        with Pair t b show ?thesis by (intro off_fail) (simp_all add: enable_torque_def)
      qed
    qed
  qed
qed

lemma enable_torque_steps:
  "steps (\<lambda>e. is_torque_call (ev_call e) \<and> (fst (enable_torque w b s) = OK \<longrightarrow> ev_ok e))
     s (snd (enable_torque w b s))"
proof (cases rule: enable_torque_cases [of b s w])
  case on_fail
  then show ?thesis
    using for_each_id_steps [of TorqueOn "torque_ids s" s w]
    by (auto elim!: steps_mono)
next
  case on_ok
  have "steps (\<lambda>e. is_torque_call (ev_call e) \<and> ev_ok e) s (snd (for_each_id w TorqueOn (torque_ids s) s))"
    using for_each_id_steps [of TorqueOn "torque_ids s" s w] on_ok(3)
    by (auto elim!: steps_mono)
  then show ?thesis using on_ok(4)
    by (simp add: steps_def reset_command_def)
next
  case off_fail
  then show ?thesis
    using for_each_id_steps [of TorqueOff "torque_ids s" s w]
    by (auto elim!: steps_mono)
next
  case off_ok
  have "steps (\<lambda>e. is_torque_call (ev_call e) \<and> ev_ok e) s (snd (for_each_id w TorqueOff (torque_ids s) s))"
    using for_each_id_steps [of TorqueOff "torque_ids s" s w] off_ok(3)
    by (auto elim!: steps_mono)
  then show ?thesis using off_ok(4)
    by (simp add: steps_def)
next
  case same
  then show ?thesis by (simp add: steps_refl)
qed

lemma enable_torque_fields:
  "joint_ids (snd (enable_torque w b s)) = joint_ids s"
  "control_mode (snd (enable_torque w b s)) = control_mode s"
  "gripper_control_mode (snd (enable_torque w b s)) = gripper_control_mode s"
  "use_dummy (snd (enable_torque w b s)) = use_dummy s"
  "gripper_id (snd (enable_torque w b s)) = gripper_id s"
  "gripper_current_limit (snd (enable_torque w b s)) = gripper_current_limit s"
  "control_items (snd (enable_torque w b s)) = control_items s"
  by (cases rule: enable_torque_cases [of b s w];
      simp add: for_each_id_fields reset_command_fields)+

lemma enable_torque_flag:
  "torque_enabled (snd (enable_torque w b s)) =
     (if fst (enable_torque w b s) = OK then b else torque_enabled s)"
  by (cases rule: enable_torque_cases [of b s w])
     (auto simp add: for_each_id_fields reset_command_fields)

lemma enable_torque_joints:
  "joints (snd (enable_torque w b s)) =
     (if b \<and> \<not> torque_enabled s \<and> fst (enable_torque w b s) = OK
      then map reset_joint (joints s) else joints s)"
  "virtual_joints (snd (enable_torque w b s)) =
     (if b \<and> \<not> torque_enabled s \<and> fst (enable_torque w b s) = OK
      then map reset_joint (virtual_joints s) else virtual_joints s)"
  by (cases rule: enable_torque_cases [of b s w];
      simp add: for_each_id_fields reset_command_fields)+

lemma enable_torque_off_ok:
  "torque_off_ok w \<Longrightarrow> fst (enable_torque w False s) = OK"
  by (cases rule: enable_torque_cases [of False s w])
     (simp_all add: for_each_id_succeeds torque_off_ok_def)

lemma enable_torque_on_ok:
  "torque_on_ok w \<Longrightarrow> fst (enable_torque w True s) = OK"
  by (cases rule: enable_torque_cases [of True s w])
     (simp_all add: for_each_id_succeeds torque_on_ok_def)

lemma kept_or_reset_same:
  "joints s' = joints s \<Longrightarrow> virtual_joints s' = virtual_joints s \<Longrightarrow>
   commands_kept_or_reset s s'"
  by (simp add: commands_kept_or_reset_def)

lemma kept_or_reset_trans:
  "commands_kept_or_reset s s1 \<Longrightarrow> commands_kept_or_reset s1 s2 \<Longrightarrow>
   commands_kept_or_reset s s2"
  by (auto simp: commands_kept_or_reset_def reset_joint_idem)

lemma kept_or_reset_left:
  "joints s1 = joints s \<Longrightarrow> virtual_joints s1 = virtual_joints s \<Longrightarrow>
   commands_kept_or_reset s1 s2 \<Longrightarrow> commands_kept_or_reset s s2"
  by (simp add: commands_kept_or_reset_def)

lemma kept_or_reset_states:
  assumes "commands_kept_or_reset s s'"
  shows "map state (joints s') = map state (joints s)"
    and "map state (virtual_joints s') = map state (virtual_joints s)"
    and "map name (joints s') = map name (joints s)"
    and "map name (virtual_joints s') = map name (virtual_joints s)"
    and "length (joints s') = length (joints s)"
  using assms by (auto simp: commands_kept_or_reset_def reset_joint_fields)

lemma enable_torque_kept_or_reset:
  "commands_kept_or_reset s (snd (enable_torque w b s))"
  by (auto simp add: commands_kept_or_reset_def enable_torque_joints)

subsection \<open>The torque bracket\<close>

lemma release_torque_steps:
  "steps (\<lambda>e. is_torque_call (ev_call e)) s (release_torque w s)"
  unfolding release_torque_def
  using enable_torque_steps [of w False s] by (auto elim!: steps_mono simp: steps_refl)

lemma restore_torque_steps:
  "steps (\<lambda>e. is_torque_call (ev_call e)) s (restore_torque w b s)"
  unfolding restore_torque_def
  using enable_torque_steps [of w True s] by (auto elim!: steps_mono simp: steps_refl)

lemma release_torque_fields:
  "joints (release_torque w s) = joints s"
  "virtual_joints (release_torque w s) = virtual_joints s"
  "joint_ids (release_torque w s) = joint_ids s"
  "control_mode (release_torque w s) = control_mode s"
  "gripper_control_mode (release_torque w s) = gripper_control_mode s"
  "use_dummy (release_torque w s) = use_dummy s"
  "gripper_id (release_torque w s) = gripper_id s"
  "gripper_current_limit (release_torque w s) = gripper_current_limit s"
  "control_items (release_torque w s) = control_items s"
  by (simp_all add: release_torque_def enable_torque_fields enable_torque_joints)

lemma restore_torque_fields:
  "joint_ids (restore_torque w b s) = joint_ids s"
  "control_mode (restore_torque w b s) = control_mode s"
  "gripper_control_mode (restore_torque w b s) = gripper_control_mode s"
  "use_dummy (restore_torque w b s) = use_dummy s"
  "gripper_id (restore_torque w b s) = gripper_id s"
  "gripper_current_limit (restore_torque w b s) = gripper_current_limit s"
  "control_items (restore_torque w b s) = control_items s"
  by (simp_all add: restore_torque_def enable_torque_fields)

lemma release_torque_off:
  "torque_off_ok w \<Longrightarrow> \<not> torque_enabled (release_torque w s)"
  by (simp add: release_torque_def enable_torque_flag enable_torque_off_ok)

lemma release_torque_idle:
  "\<not> torque_enabled s \<Longrightarrow> release_torque w s = s"
  by (simp add: release_torque_def)

lemma restore_torque_idle: "restore_torque w False s = s"
  by (simp add: restore_torque_def)

lemma restore_torque_on:
  "torque_on_ok w \<Longrightarrow> torque_enabled (restore_torque w True s)"
  by (simp add: restore_torque_def enable_torque_flag enable_torque_on_ok)

lemma restore_torque_kept_or_reset:
  "commands_kept_or_reset s (restore_torque w b s)"
  unfolding restore_torque_def
  by (cases b) (simp_all add: enable_torque_kept_or_reset kept_or_reset_same)

subsection \<open>The group block\<close>

lemma mode_transition_unfold:
  "mode_transition w f m s =
     (if fst (for_each_id w f (joint_ids s) (release_torque w s))
      then (OK, restore_torque w (torque_enabled s)
                 ((snd (for_each_id w f (joint_ids s) (release_torque w s)))\<lparr>control_mode := m\<rparr>))
      else (ERROR, snd (for_each_id w f (joint_ids s) (release_torque w s))))"
  by (cases "for_each_id w f (joint_ids s) (release_torque w s)")
     (auto simp: mode_transition_def Let_def release_torque_fields)

lemma mode_transition_steps:
  assumes f: "\<And>i. is_group_mode_set (f i)"
  shows "steps (\<lambda>e. is_torque_call (ev_call e) \<or>
                   (is_group_mode_set (ev_call e) \<and>
                    (fst (mode_transition w f m s) = OK \<longrightarrow> ev_ok e) \<and>
                    (torque_off_ok w \<longrightarrow> \<not> ev_torque e)))
           s (snd (mode_transition w f m s))"
    (is "steps ?P s _")
proof -
  let ?s1 = "release_torque w s"
  let ?r = "for_each_id w f (joint_ids s) ?s1"
  have a: "steps ?P s ?s1"
    using release_torque_steps [of s w] by (auto elim!: steps_mono)
  have b: "steps ?P ?s1 (snd ?r)"
    using for_each_id_steps [of f "joint_ids s" ?s1 w] f release_torque_off [of w s]
    by (auto elim!: steps_mono simp: mode_transition_unfold)
  show ?thesis
  proof (cases "fst ?r")
    case True
    have "steps ?P (snd ?r) (restore_torque w (torque_enabled s) ((snd ?r)\<lparr>control_mode := m\<rparr>))"
      using restore_torque_steps [of "(snd ?r)\<lparr>control_mode := m\<rparr>" w "torque_enabled s"]
      by (auto elim!: steps_mono simp: steps_def)
    with a b True show ?thesis
      by (auto simp: mode_transition_unfold intro: steps_trans)
  next
    case False
    with a b show ?thesis
      by (auto simp: mode_transition_unfold intro: steps_trans)
  qed
qed

lemma mode_transition_fields:
  "joint_ids (snd (mode_transition w f m s)) = joint_ids s"
  "gripper_control_mode (snd (mode_transition w f m s)) = gripper_control_mode s"
  "use_dummy (snd (mode_transition w f m s)) = use_dummy s"
  "gripper_id (snd (mode_transition w f m s)) = gripper_id s"
  "gripper_current_limit (snd (mode_transition w f m s)) = gripper_current_limit s"
  "control_items (snd (mode_transition w f m s)) = control_items s"
  by (simp_all add: mode_transition_unfold restore_torque_fields for_each_id_fields
        release_torque_fields)

lemma mode_transition_error:
  "fst (mode_transition w f m s) = ERROR \<Longrightarrow>
   control_mode (snd (mode_transition w f m s)) = control_mode s"
  by (auto simp add: mode_transition_unfold for_each_id_fields release_torque_fields split: if_splits)

lemma mode_transition_restores:
  "torque_on_ok w \<Longrightarrow> torque_enabled s \<Longrightarrow> fst (mode_transition w f m s) = OK \<Longrightarrow>
   torque_enabled (snd (mode_transition w f m s))"
  by (auto simp add: mode_transition_unfold restore_torque_on split: if_splits)

lemma mode_transition_torque_off:
  "\<not> torque_enabled s \<Longrightarrow>
   joints (snd (mode_transition w f m s)) = joints s \<and>
   virtual_joints (snd (mode_transition w f m s)) = virtual_joints s \<and>
   \<not> torque_enabled (snd (mode_transition w f m s))"
  by (simp add: mode_transition_unfold release_torque_idle restore_torque_idle for_each_id_fields)

lemma mode_transition_kept_or_reset:
  "commands_kept_or_reset s (snd (mode_transition w f m s))"
  using restore_torque_kept_or_reset [of
      "(snd (for_each_id w f (joint_ids s) (release_torque w s)))\<lparr>control_mode := m\<rparr>"
      w "torque_enabled s"]
  by (simp add: mode_transition_unfold commands_kept_or_reset_def for_each_id_fields
        release_torque_fields)

subsection \<open>The gripper block\<close>

lemma call_fields:
  "joints (snd (call w c s)) = joints s"
  "virtual_joints (snd (call w c s)) = virtual_joints s"
  "joint_ids (snd (call w c s)) = joint_ids s"
  "control_mode (snd (call w c s)) = control_mode s"
  "gripper_control_mode (snd (call w c s)) = gripper_control_mode s"
  "torque_enabled (snd (call w c s)) = torque_enabled s"
  "use_dummy (snd (call w c s)) = use_dummy s"
  "gripper_id (snd (call w c s)) = gripper_id s"
  "gripper_current_limit (snd (call w c s)) = gripper_current_limit s"
  "control_items (snd (call w c s)) = control_items s"
  by (simp_all add: call_def Let_def)

lemma gripper_transition_unfold:
  "gripper_transition w force_set s =
     (if gripper_id s \<noteq> 255 \<and> (force_set \<or> gripper_control_mode s \<noteq> CurrentBasedPosition) then
        (if \<not> fst (call w (gripper_mode_call s) (release_torque w s)) then
           (ERROR, snd (call w (gripper_mode_call s) (release_torque w s)))
         else if \<not> fst (call w (gripper_current_call w s)
                          (snd (call w (gripper_mode_call s) (release_torque w s)))) then
           (ERROR, snd (call w (gripper_current_call w s)
                          (snd (call w (gripper_mode_call s) (release_torque w s)))))
         else
           (OK, restore_torque w (torque_enabled s)
                  ((snd (call w (gripper_current_call w s)
                          (snd (call w (gripper_mode_call s) (release_torque w s)))))
                   \<lparr>gripper_control_mode := CurrentBasedPosition\<rparr>)))
      else (OK, s))"
proof -
  obtain ok1 s2 where c1: "call w (gripper_mode_call s) (release_torque w s) = (ok1, s2)"
    by (cases "call w (gripper_mode_call s) (release_torque w s)")
  obtain ok2 s3 where c2: "call w (gripper_current_call w s) s2 = (ok2, s3)"
    by (cases "call w (gripper_current_call w s) s2")
  have s2: "gripper_id s2 = gripper_id s" "gripper_current_limit s2 = gripper_current_limit s"
    using call_fields(8,9) [of w "gripper_mode_call s" "release_torque w s"] c1
    by (simp_all add: release_torque_fields)
  show ?thesis
    using c1 c2 s2
    by (cases ok1; cases ok2)
       (simp_all add: gripper_transition_def Let_def release_torque_fields
          gripper_mode_call_def gripper_current_call_def)
qed

lemma gripper_transition_steps:
  "steps (\<lambda>e. is_torque_call (ev_call e) \<or>
              (is_gripper_call (ev_call e) \<and>
               (fst (gripper_transition w force_set s) = OK \<longrightarrow> ev_ok e) \<and>
               (torque_off_ok w \<longrightarrow> \<not> ev_torque e)))
     s (snd (gripper_transition w force_set s))"
  (is "steps ?P s _")
proof (cases "gripper_id s \<noteq> 255 \<and> (force_set \<or> gripper_control_mode s \<noteq> CurrentBasedPosition)")
  case False
  then show ?thesis by (auto simp: gripper_transition_unfold steps_refl)
next
  case True
  let ?s1 = "release_torque w s"
  let ?c1 = "call w (gripper_mode_call s) ?s1"
  let ?c2 = "call w (gripper_current_call w s) (snd ?c1)"
  let ?s4 = "restore_torque w (torque_enabled s) ((snd ?c2)\<lparr>gripper_control_mode := CurrentBasedPosition\<rparr>)"
  have g: "is_gripper_call (gripper_mode_call s)" "is_gripper_call (gripper_current_call w s)"
    by (simp_all add: gripper_mode_call_def gripper_current_call_def)
  have a: "steps (\<lambda>e. is_torque_call (ev_call e)) s ?s1"
    by (rule release_torque_steps)
  have b: "steps (\<lambda>e. is_gripper_call (ev_call e) \<and> (torque_off_ok w \<longrightarrow> \<not> ev_torque e) \<and>
                     ev_ok e = fst ?c1) ?s1 (snd ?c1)"
    using call_steps [of "gripper_mode_call s" ?s1 w] g release_torque_off [of w s]
    by (auto elim!: steps_mono)
  have c: "steps (\<lambda>e. is_gripper_call (ev_call e) \<and> (torque_off_ok w \<longrightarrow> \<not> ev_torque e) \<and>
                     ev_ok e = fst ?c2) (snd ?c1) (snd ?c2)"
    using call_steps [of "gripper_current_call w s" "snd ?c1" w] g release_torque_off [of w s]
    by (auto elim!: steps_mono simp: call_fields)
  have d: "steps (\<lambda>e. is_torque_call (ev_call e)) (snd ?c2) ?s4"
    using restore_torque_steps [of "(snd ?c2)\<lparr>gripper_control_mode := CurrentBasedPosition\<rparr>" w "torque_enabled s"]
    by (simp add: steps_def)
  show ?thesis
  proof (cases "fst ?c1")
    case c1: False
    have "steps ?P s ?s1" using a by (auto elim!: steps_mono)
    moreover have "steps ?P ?s1 (snd ?c1)"
      using b c1 True by (auto elim!: steps_mono simp: gripper_transition_unfold)
    ultimately show ?thesis using c1 True
      by (auto simp: gripper_transition_unfold intro: steps_trans)
  next
    case c1: True
    show ?thesis
    proof (cases "fst ?c2")
      case c2: False
      have "steps ?P s ?s1" using a by (auto elim!: steps_mono)
      moreover have "steps ?P ?s1 (snd ?c1)"
        using b c1 c2 True by (auto elim!: steps_mono simp: gripper_transition_unfold)
      moreover have "steps ?P (snd ?c1) (snd ?c2)"
        using c c1 c2 True by (auto elim!: steps_mono simp: gripper_transition_unfold)
      ultimately show ?thesis using c1 c2 True
        by (auto simp: gripper_transition_unfold intro: steps_trans)
    next
      case c2: True
      have "steps ?P s ?s1" using a by (auto elim!: steps_mono)
      moreover have "steps ?P ?s1 (snd ?c1)"
        using b c1 c2 True by (auto elim!: steps_mono simp: gripper_transition_unfold)
      moreover have "steps ?P (snd ?c1) (snd ?c2)"
        using c c1 c2 True by (auto elim!: steps_mono simp: gripper_transition_unfold)
      moreover have "steps ?P (snd ?c2) ?s4" using d by (auto elim!: steps_mono)
      ultimately have "steps ?P s ?s4" by (blast intro: steps_trans)
      then show ?thesis using c1 c2 True
        by (simp add: gripper_transition_unfold)
    qed
  qed
qed

lemma gripper_transition_fields:
  "joint_ids (snd (gripper_transition w force_set s)) = joint_ids s"
  "control_mode (snd (gripper_transition w force_set s)) = control_mode s"
  "use_dummy (snd (gripper_transition w force_set s)) = use_dummy s"
  "gripper_id (snd (gripper_transition w force_set s)) = gripper_id s"
  "gripper_current_limit (snd (gripper_transition w force_set s)) = gripper_current_limit s"
  "control_items (snd (gripper_transition w force_set s)) = control_items s"
  by (simp_all add: gripper_transition_unfold restore_torque_fields call_fields
        release_torque_fields)

lemma gripper_transition_error:
  "fst (gripper_transition w force_set s) = ERROR \<Longrightarrow>
   gripper_control_mode (snd (gripper_transition w force_set s)) = gripper_control_mode s"
  by (auto simp add: gripper_transition_unfold call_fields release_torque_fields split: if_splits)

lemma gripper_transition_restores:
  "torque_on_ok w \<Longrightarrow> torque_enabled s \<Longrightarrow> fst (gripper_transition w force_set s) = OK \<Longrightarrow>
   torque_enabled (snd (gripper_transition w force_set s))"
  by (auto simp add: gripper_transition_unfold restore_torque_on split: if_splits)

lemma gripper_transition_torque_off:
  "\<not> torque_enabled s \<Longrightarrow>
   joints (snd (gripper_transition w force_set s)) = joints s \<and>
   virtual_joints (snd (gripper_transition w force_set s)) = virtual_joints s \<and>
   \<not> torque_enabled (snd (gripper_transition w force_set s))"
  by (simp add: gripper_transition_unfold release_torque_idle restore_torque_idle call_fields)

lemma gripper_transition_kept_or_reset:
  "commands_kept_or_reset s (snd (gripper_transition w force_set s))"
  using restore_torque_kept_or_reset [of
      "(snd (call w (gripper_current_call w s)
               (snd (call w (gripper_mode_call s) (release_torque w s)))))
        \<lparr>gripper_control_mode := CurrentBasedPosition\<rparr>"
      w "torque_enabled s"]
  by (simp add: gripper_transition_unfold commands_kept_or_reset_def call_fields
        release_torque_fields)

lemma gripper_transition_idle:
  "gripper_id s = 255 \<or> (\<not> force_set \<and> gripper_control_mode s = CurrentBasedPosition) \<Longrightarrow>
   gripper_transition w force_set s = (OK, s)"
  by (auto simp: gripper_transition_def)

lemma group_mode_set_calls:
  "is_group_mode_set (SetVelocityControlMode i)" "is_group_mode_set (SetPositionControlMode i)"
  by simp_all

lemma group_transition_steps:
  "steps (\<lambda>e. is_torque_call (ev_call e) \<or>
              (is_group_mode_set (ev_call e) \<and>
               (fst (group_transition w mode force_set s) = OK \<longrightarrow> ev_ok e) \<and>
               (torque_off_ok w \<longrightarrow> \<not> ev_torque e)))
     s (snd (group_transition w mode force_set s))"
  using mode_transition_steps [of SetVelocityControlMode w Velocity s]
        mode_transition_steps [of SetPositionControlMode w Position s]
  by (simp add: group_transition_def steps_refl)

lemma group_transition_fields:
  "joint_ids (snd (group_transition w mode force_set s)) = joint_ids s"
  "gripper_control_mode (snd (group_transition w mode force_set s)) = gripper_control_mode s"
  "use_dummy (snd (group_transition w mode force_set s)) = use_dummy s"
  "gripper_id (snd (group_transition w mode force_set s)) = gripper_id s"
  "gripper_current_limit (snd (group_transition w mode force_set s)) = gripper_current_limit s"
  "control_items (snd (group_transition w mode force_set s)) = control_items s"
  by (simp_all add: group_transition_def mode_transition_fields)

lemma group_transition_error:
  "fst (group_transition w mode force_set s) = ERROR \<Longrightarrow>
   control_mode (snd (group_transition w mode force_set s)) = control_mode s"
  by (auto simp add: group_transition_def mode_transition_error split: if_splits)

lemma group_transition_restores:
  "torque_on_ok w \<Longrightarrow> torque_enabled s \<Longrightarrow> fst (group_transition w mode force_set s) = OK \<Longrightarrow>
   torque_enabled (snd (group_transition w mode force_set s))"
  by (auto simp add: group_transition_def mode_transition_restores split: if_splits)

lemma group_transition_torque_off:
  "\<not> torque_enabled s \<Longrightarrow>
   joints (snd (group_transition w mode force_set s)) = joints s \<and>
   virtual_joints (snd (group_transition w mode force_set s)) = virtual_joints s \<and>
   \<not> torque_enabled (snd (group_transition w mode force_set s))"
  by (simp add: group_transition_def mode_transition_torque_off)

lemma group_transition_kept_or_reset:
  "commands_kept_or_reset s (snd (group_transition w mode force_set s))"
  by (simp add: group_transition_def mode_transition_kept_or_reset kept_or_reset_same)

lemma group_transition_idle:
  "\<not> force_set \<Longrightarrow> control_mode s = mode \<Longrightarrow> mode = Velocity \<or> mode = Position \<Longrightarrow>
   group_transition w mode force_set s = (OK, s)"
  by (auto simp: group_transition_def)

subsection \<open>\<open>set_control_mode\<close>\<close>

lemma set_control_mode_unfold:
  "set_control_mode w mode force_set s =
     (if fst (group_transition w mode force_set s) = ERROR
      then (ERROR, snd (group_transition w mode force_set s))
      else gripper_transition w force_set (snd (group_transition w mode force_set s)))"
proof (cases "group_transition w mode force_set s")
  case (Pair r s1)
  then show ?thesis by (cases r) (simp_all add: set_control_mode_def)
qed

lemma return_type_not_ERROR: "(r \<noteq> ERROR) = (r = OK)"
  by (cases r) simp_all

lemma set_control_mode_steps:
  "steps (\<lambda>e. is_torque_call (ev_call e) \<or>
              ((is_group_mode_set (ev_call e) \<or> is_gripper_call (ev_call e)) \<and>
               (fst (set_control_mode w mode force_set s) = OK \<longrightarrow> ev_ok e) \<and>
               (torque_off_ok w \<longrightarrow> \<not> ev_torque e)))
     s (snd (set_control_mode w mode force_set s))"
  (is "steps ?P s _")
proof (cases "fst (group_transition w mode force_set s) = ERROR")
  case True
  then show ?thesis
    using group_transition_steps [of w mode force_set s]
    by (auto simp: set_control_mode_unfold elim!: steps_mono)
next
  case False
  then have ok: "fst (group_transition w mode force_set s) = OK"
    by (simp add: return_type_not_ERROR)
  let ?s1 = "snd (group_transition w mode force_set s)"
  have "steps ?P s ?s1"
    using group_transition_steps [of w mode force_set s] ok
    by (auto elim!: steps_mono)
  moreover have "steps ?P ?s1 (snd (gripper_transition w force_set ?s1))"
    using gripper_transition_steps [of w force_set ?s1] False
    by (auto elim!: steps_mono simp: set_control_mode_unfold)
  ultimately show ?thesis using False
    by (auto simp: set_control_mode_unfold intro: steps_trans)
qed

lemma set_control_mode_fields:
  "joint_ids (snd (set_control_mode w mode force_set s)) = joint_ids s"
  "use_dummy (snd (set_control_mode w mode force_set s)) = use_dummy s"
  "gripper_id (snd (set_control_mode w mode force_set s)) = gripper_id s"
  "gripper_current_limit (snd (set_control_mode w mode force_set s)) = gripper_current_limit s"
  "control_items (snd (set_control_mode w mode force_set s)) = control_items s"
  by (simp_all add: set_control_mode_unfold group_transition_fields gripper_transition_fields)

lemma set_control_mode_restores:
  "torque_on_ok w \<Longrightarrow> torque_enabled s \<Longrightarrow> fst (set_control_mode w mode force_set s) = OK \<Longrightarrow>
   torque_enabled (snd (set_control_mode w mode force_set s))"
  by (auto simp add: set_control_mode_unfold return_type_not_ERROR
        group_transition_restores gripper_transition_restores split: if_splits)

lemma set_control_mode_torque_off:
  "\<not> torque_enabled s \<Longrightarrow>
   joints (snd (set_control_mode w mode force_set s)) = joints s \<and>
   virtual_joints (snd (set_control_mode w mode force_set s)) = virtual_joints s \<and>
   \<not> torque_enabled (snd (set_control_mode w mode force_set s))"
  by (simp add: set_control_mode_unfold group_transition_torque_off gripper_transition_torque_off)

lemma set_control_mode_kept_or_reset:
  "commands_kept_or_reset s (snd (set_control_mode w mode force_set s))"
  using group_transition_kept_or_reset [of s w mode force_set]
    kept_or_reset_trans [OF group_transition_kept_or_reset [of s w mode force_set]
      gripper_transition_kept_or_reset [of "snd (group_transition w mode force_set s)" w force_set]]
  by (simp add: set_control_mode_unfold)

lemma set_control_mode_idle:
  "control_mode s = mode \<Longrightarrow> mode = Velocity \<or> mode = Position \<Longrightarrow>
   gripper_id s = 255 \<or> gripper_control_mode s = CurrentBasedPosition \<Longrightarrow>
   set_control_mode w mode False s = (OK, s)"
  by (auto simp: set_control_mode_unfold group_transition_idle gripper_transition_idle)

lemma set_control_mode_group_error:
  "fst (group_transition w mode force_set s) = ERROR \<Longrightarrow>
   fst (set_control_mode w mode force_set s) = ERROR \<and>
   control_mode (snd (set_control_mode w mode force_set s)) = control_mode s \<and>
   gripper_control_mode (snd (set_control_mode w mode force_set s)) = gripper_control_mode s"
  by (simp add: set_control_mode_unfold group_transition_error group_transition_fields)

lemma set_control_mode_error_gripper_mode:
  "fst (set_control_mode w mode force_set s) = ERROR \<Longrightarrow>
   gripper_control_mode (snd (set_control_mode w mode force_set s)) = gripper_control_mode s"
  by (auto simp add: set_control_mode_unfold group_transition_fields gripper_transition_error
        split: if_splits)

lemma steps_split:
  assumes "steps P s s1" "steps Q s1 s2" "e \<in> set (new_events s s2)"
  shows "P e \<or> Q e"
proof -
  have "steps (\<lambda>e. P e \<or> Q e) s s1" using assms(1) by (auto elim!: steps_mono)
  moreover have "steps (\<lambda>e. P e \<or> Q e) s1 s2" using assms(2) by (auto elim!: steps_mono)
  ultimately have "steps (\<lambda>e. P e \<or> Q e) s s2" by (rule steps_trans)
  then show ?thesis using assms(3) by (rule steps_new_events)
qed

lemma set_control_mode_group_failure:
  assumes e: "e \<in> set (new_events s (snd (set_control_mode w mode force_set s)))"
    and g: "is_group_mode_set (ev_call e)" and nok: "\<not> ev_ok e"
  shows "fst (group_transition w mode force_set s) = ERROR"
proof (rule ccontr)
  assume n: "fst (group_transition w mode force_set s) \<noteq> ERROR"
  then have ok: "fst (group_transition w mode force_set s) = OK"
    by (simp add: return_type_not_ERROR)
  let ?s1 = "snd (group_transition w mode force_set s)"
  have e': "e \<in> set (new_events s (snd (gripper_transition w force_set ?s1)))"
    using e n by (simp add: set_control_mode_unfold)
  have "is_torque_call (ev_call e) \<or> ev_ok e \<or> is_gripper_call (ev_call e)"
    using steps_split [OF group_transition_steps [of w mode force_set s]
        gripper_transition_steps [of w force_set ?s1] e'] ok
    by auto
  then show False using g nok by (cases "ev_call e") simp_all
qed

lemma set_control_mode_seq_steps:
  "steps (\<lambda>e. is_mode_set (ev_call e) \<longrightarrow> torque_off_ok w \<longrightarrow> \<not> ev_torque e)
     s (set_control_mode_seq w cs s)"
proof (induction cs arbitrary: s)
  case Nil
  show ?case by (simp add: steps_refl)
next
  case (Cons c cs)
  obtain mode force_set where c: "c = (mode, force_set)" by (cases c)
  have "steps (\<lambda>e. is_mode_set (ev_call e) \<longrightarrow> torque_off_ok w \<longrightarrow> \<not> ev_torque e)
          s (snd (set_control_mode w mode force_set s))"
  proof (rule steps_mono [OF set_control_mode_steps [of w mode force_set s]])
    fix e
    assume "is_torque_call (ev_call e) \<or>
       (is_group_mode_set (ev_call e) \<or> is_gripper_call (ev_call e)) \<and>
       (fst (set_control_mode w mode force_set s) = OK \<longrightarrow> ev_ok e) \<and>
       (torque_off_ok w \<longrightarrow> \<not> ev_torque e)"
    then show "is_mode_set (ev_call e) \<longrightarrow> torque_off_ok w \<longrightarrow> \<not> ev_torque e"
      by (cases "ev_call e") auto
  qed
  then show ?case using Cons.IH [of "snd (set_control_mode w mode force_set s)"] c
    by (auto intro: steps_trans)
qed

subsection \<open>\<open>write\<close>\<close>

lemma eq_zero_iff: "eq_zero x = (\<not> ne_zero x)"
  by (cases x) (simp_all add: eq_zero_def)

lemma new_events_call:
  "steps P s s2 \<Longrightarrow>
   new_events s (snd (call w c s2)) =
     new_events s s2 @ [\<lparr>ev_call = c, ev_ok = fst (call w c s2), ev_torque = torque_enabled s2\<rparr>]"
  by (auto simp: steps_def new_events_def call_def Let_def)

lemma steps_sync_writes:
  "steps P s s' \<Longrightarrow> (\<And>e. P e \<Longrightarrow> \<not> is_sync_write (ev_call e)) \<Longrightarrow>
   sync_writes (new_events s s') = []"
  by (auto simp: steps_def new_events_def sync_writes_def filter_empty_conv)

lemma set_control_mode_no_sync_write:
  "sync_writes (new_events s (snd (set_control_mode w mode force_set s))) = []"
proof (rule steps_sync_writes [OF set_control_mode_steps [of w mode force_set s]])
  fix e
  assume "is_torque_call (ev_call e) \<or>
       (is_group_mode_set (ev_call e) \<or> is_gripper_call (ev_call e)) \<and>
       (fst (set_control_mode w mode force_set s) = OK \<longrightarrow> ev_ok e) \<and>
       (torque_off_ok w \<longrightarrow> \<not> ev_torque e)"
  then show "\<not> is_sync_write (ev_call e)" by (cases "ev_call e") auto
qed

lemma ids_buffer_eq: "length (joint_ids s) = length (joints s) \<Longrightarrow> ids_buffer s = joint_ids s"
  by (simp add: ids_buffer_def)

lemma looped_fields:
  "joints (looped s) = joints s"
  "virtual_joints (looped s) = map loop_back (virtual_joints s)"
  "joint_ids (looped s) = joint_ids s"
  "control_mode (looped s) = control_mode s"
  "gripper_control_mode (looped s) = gripper_control_mode s"
  "torque_enabled (looped s) = torque_enabled s"
  "use_dummy (looped s) = use_dummy s"
  "gripper_id (looped s) = gripper_id s"
  "bus_log (looped s) = bus_log s"
  "ids_buffer (looped s) = ids_buffer s"
  by (simp_all add: looped_def ids_buffer_def)

lemma write_velocity_unfold:
  assumes "\<not> use_dummy s" "\<exists>j\<in>set (joints s). ne_zero (velocity (command j))"
  shows "write' w s =
    (OK, snd (call w (SyncWrite kGoalVelocityIndex (ids_buffer s)
                (raw_commands w (convertVelocity2Value w) velocity (ids_buffer s)
                   (joints (snd (set_control_mode w Velocity False (looped s))))))
              (snd (set_control_mode w Velocity False (looped s)))))"
  using assms by (simp add: write'_def Let_def list_ex_iff looped_def ids_buffer_def)

lemma write_effort_unfold:
  assumes "\<not> use_dummy s" "\<forall>j\<in>set (joints s). eq_zero (velocity (command j))"
    "\<exists>j\<in>set (joints s). ne_zero (effort (command j))"
  shows "write' w s = (ERROR, looped s)"
  using assms by (simp add: write'_def Let_def list_ex_iff looped_def eq_zero_iff)

lemma write_position_unfold:
  assumes "\<not> use_dummy s" "\<forall>j\<in>set (joints s). eq_zero (velocity (command j))"
    "\<forall>j\<in>set (joints s). eq_zero (effort (command j))"
  shows "write' w s =
    (OK, snd (call w (SyncWrite kGoalPositionIndex (ids_buffer s)
                (raw_commands w (convertRadian2Value w) position (ids_buffer s)
                   (joints (snd (set_control_mode w Position False (looped s))))))
              (snd (set_control_mode w Position False (looped s)))))"
  using assms by (simp add: write'_def Let_def list_ex_iff looped_def ids_buffer_def eq_zero_iff)

lemma write_dummy_unfold:
  "use_dummy s \<Longrightarrow> write' w s = (OK, (looped s)\<lparr>joints := map loop_back_position (joints s)\<rparr>)"
  by (simp add: write'_def Let_def looped_def)

lemma write_velocity_branch:
  assumes d: "\<not> use_dummy s" and v: "\<exists>j\<in>set (joints s). ne_zero (velocity (command j))"
    and wf: "length (joint_ids s) = length (joints s)"
  shows "(let s2 = snd (set_control_mode w Velocity False (looped s));
              payload = raw_commands w (convertVelocity2Value w) velocity (joint_ids s) (joints s2)
          in write' w s = (OK, snd (call w (SyncWrite kGoalVelocityIndex (joint_ids s) payload) s2)) \<and>
             sync_writes (new_events s (snd (write' w s))) =
               [SyncWrite kGoalVelocityIndex (joint_ids s) payload] \<and>
             (joints s2 = joints s \<or> joints s2 = map reset_joint (joints s)) \<and>
             (\<not> torque_enabled s \<or>
              control_mode s = Velocity \<and>
              (gripper_id s = 255 \<or> gripper_control_mode s = CurrentBasedPosition) \<longrightarrow>
              joints s2 = joints s))"
proof -
  let ?s2 = "snd (set_control_mode w Velocity False (looped s))"
  let ?payload = "raw_commands w (convertVelocity2Value w) velocity (joint_ids s) (joints ?s2)"
  let ?c = "SyncWrite kGoalVelocityIndex (joint_ids s) ?payload"
  have w: "write' w s = (OK, snd (call w ?c ?s2))"
    using write_velocity_unfold [OF d v, of w] ids_buffer_eq [OF wf] by simp
  have st: "steps (\<lambda>e. True) s ?s2"
    using set_control_mode_steps [of w Velocity False "looped s"]
    by (auto simp: steps_def looped_fields)
  have "new_events s ?s2 = new_events (looped s) ?s2"
    by (simp add: new_events_def looped_fields)
  then have ns: "sync_writes (new_events s ?s2) = []"
    by (simp add: set_control_mode_no_sync_write)
  have sw: "sync_writes (new_events s (snd (write' w s))) = [?c]"
    using ns by (simp add: w new_events_call [OF st] sync_writes_def)
  have j: "joints ?s2 = joints s \<or> joints ?s2 = map reset_joint (joints s)"
    using set_control_mode_kept_or_reset [of "looped s" w Velocity False]
    by (auto simp: commands_kept_or_reset_def looped_fields)
  have k: "joints ?s2 = joints s"
    if "\<not> torque_enabled s \<or>
        control_mode s = Velocity \<and>
        (gripper_id s = 255 \<or> gripper_control_mode s = CurrentBasedPosition)"
    using that set_control_mode_torque_off [of "looped s" w Velocity False]
      set_control_mode_idle [of "looped s" Velocity w]
    by (auto simp: looped_fields)
  show ?thesis using w sw j k by (simp add: Let_def)
qed

lemma state_loop_back: "state (loop_back j) = command j"
  by (simp add: loop_back_def)

lemma loop_back_fields: "command (loop_back j) = command j" "name (loop_back j) = name j"
  by (simp_all add: loop_back_def)

lemma write_virtual_joints:
  "commands_kept_or_reset (looped s) (snd (write' w s)) \<or>
   virtual_joints (snd (write' w s)) = virtual_joints (looped s)"
  "use_dummy s \<or> \<not> torque_enabled s \<Longrightarrow>
   virtual_joints (snd (write' w s)) = virtual_joints (looped s)"
proof -
  consider (dummy) "use_dummy s"
    | (vel) "\<not> use_dummy s" "\<exists>j\<in>set (joints s). ne_zero (velocity (command j))"
    | (eff) "\<not> use_dummy s" "\<forall>j\<in>set (joints s). eq_zero (velocity (command j))"
        "\<exists>j\<in>set (joints s). ne_zero (effort (command j))"
    | (pos) "\<not> use_dummy s" "\<forall>j\<in>set (joints s). eq_zero (velocity (command j))"
        "\<forall>j\<in>set (joints s). eq_zero (effort (command j))"
    by (auto simp: eq_zero_iff)
  then have "(commands_kept_or_reset (looped s) (snd (write' w s)) \<or>
      virtual_joints (snd (write' w s)) = virtual_joints (looped s)) \<and>
     (use_dummy s \<or> \<not> torque_enabled s \<longrightarrow>
      virtual_joints (snd (write' w s)) = virtual_joints (looped s))"
  proof cases
    case dummy
    then show ?thesis by (simp add: write_dummy_unfold)
  next
    case vel
    show ?thesis
      using set_control_mode_kept_or_reset [of "looped s" w Velocity False]
        set_control_mode_torque_off [of "looped s" w Velocity False] vel(1)
      by (simp add: write_velocity_unfold [OF vel] commands_kept_or_reset_def call_fields
            looped_fields)
  next
    case eff
    then show ?thesis by (simp add: write_effort_unfold)
  next
    case pos
    show ?thesis
      using set_control_mode_kept_or_reset [of "looped s" w Position False]
        set_control_mode_torque_off [of "looped s" w Position False] pos(1)
      by (simp add: write_position_unfold [OF pos] commands_kept_or_reset_def call_fields
            looped_fields)
  qed
  then show "commands_kept_or_reset (looped s) (snd (write' w s)) \<or>
      virtual_joints (snd (write' w s)) = virtual_joints (looped s)"
    and "use_dummy s \<or> \<not> torque_enabled s \<Longrightarrow>
      virtual_joints (snd (write' w s)) = virtual_joints (looped s)"
    by blast+
qed

subsection \<open>Unfolding the operations on concrete inputs\<close>

lemmas op_defs =
  set_control_mode_def group_transition_def mode_transition_def gripper_transition_def
  release_torque_def restore_torque_def enable_torque_def torque_ids_def call_def
  reset_command_def reset_joint_def Let_def

lemmas demo_defs =
  demo_hw_def demo_arm_def demo_gripper_hw_def demo_workbench_def demo_value_def demo_raw_def demo_phys_def
  all_succeed_def all_fail_def torque_off_fails_def mode_set_fails_def

lemmas write_defs =
  write'_def looped_def loop_back_def loop_back_position_def ids_buffer_def raw_commands_def
  sync_writes_def new_events_def kGoalVelocityIndex_def kGoalPositionIndex_def
  kGoalCurrentItem_def

subsection \<open>\<open>read\<close>\<close>

lemma read_dummy: "use_dummy s \<Longrightarrow> read w s = (OK, s)"
  by (simp add: read_def)

lemma read_returns_OK: "fst (read w s) = OK"
  by (simp add: read_def getSyncReadData_def Let_def split_def)

lemma ids_buffer_length: "length (ids_buffer s) = length (joints s)"
  by (simp add: ids_buffer_def Let_def)

lemma read_frame:
  "virtual_joints (snd (read w s)) = virtual_joints s"
  "map command (joints (snd (read w s))) = map command (joints s)"
  "map name (joints (snd (read w s))) = map name (joints s)"
  "control_mode (snd (read w s)) = control_mode s"
  "torque_enabled (snd (read w s)) = torque_enabled s"
  by (simp_all add: read_def getSyncReadData_def Let_def split_def call_def store_state_def
        ids_buffer_length map_equality_iff)

lemma read_states:
  assumes "\<not> use_dummy s" "length (joint_ids s) = length (joints s)" "stores_nothing w"
  shows "map state (joints (snd (read w s))) =
         map (\<lambda>i. \<lparr>position = convertValue2Radian w i 0,
                    velocity = convertValue2Velocity w i 0,
                    effort = convertValue2Current w 0\<rparr>) (joint_ids s)"
  using assms
  by (simp add: read_def getSyncReadData_def Let_def split_def call_def store_state_def
        ids_buffer_eq stores_nothing_def map_equality_iff)

lemma read_forgets_state:
  assumes "\<not> use_dummy s" "length js = length (joints s)"
  shows "map state (joints (snd (read w (s\<lparr>joints := js\<rparr>)))) =
         map state (joints (snd (read w s)))"
  using assms
  by (simp add: read_def getSyncReadData_def Let_def split_def call_def store_state_def
        ids_buffer_def)

lemmas read_defs =
  read_def getSyncReadData_def store_state_def ids_buffer_def
  kPresentPositionVelocityCurrentIndex_def kPresentCurrentItem_def kPresentVelocityItem_def
  kPresentPositionItem_def

subsection \<open>\<open>configure\<close>\<close>

lemma length_resize: "length (resize n d xs) = n"
  by (simp add: resize_def)

lemma gripper_setup_lengths:
  "gripper_setup L c k s = Inr s' \<Longrightarrow>
   length (joint_ids s') = length (joint_ids s) \<and> length (joints s') = length (joints s) \<and>
   length (virtual_joints s') = length (virtual_joints s)"
  by (auto simp: gripper_setup_def Let_def split: option.splits)

lemma gripper_setup_index_error: "\<not> is_index_error (gripper_setup L c k s)"
  by (auto simp: gripper_setup_def Let_def is_index_error_def split: option.splits)

lemma gripper_setup_parses:
  "device_parameters_parse L c \<Longrightarrow> info_name c = ''gripper'' \<Longrightarrow>
   \<exists>s'. gripper_setup L c k s = Inr s'"
  by (auto simp: gripper_setup_def Let_def device_parameters_parse_def split: option.splits)

lemma assign_joints_in_bounds:
  assumes "joint_index + length (filter (\<lambda>c. \<not> assigned_virtual c) cs) \<le> length (joint_ids s)"
    and "joint_index + length (filter (\<lambda>c. \<not> assigned_virtual c) cs) \<le> length (joints s)"
    and "virtual_joint_index + length (filter assigned_virtual cs) \<le> length (virtual_joints s)"
  shows "\<not> is_index_error (assign_joints L cs joint_index virtual_joint_index s)"
  using assms
proof (induction cs arbitrary: joint_index virtual_joint_index s)
  case Nil
  show ?case by (simp add: is_index_error_def)
next
  case (Cons c cs)
  show ?case
  proof (cases "assigned_virtual c")
    case True
    then have v: "parameters c ''is_virtual'' = Some ''true''" by (simp add: assigned_virtual_def)
    from Cons.prems True have lt: "virtual_joint_index < length (virtual_joints s)" by simp
    show ?thesis
      using v lt Cons.prems True
      by (simp add: Cons.IH)
  next
    case False
    then have v: "parameters c ''is_virtual'' \<noteq> Some ''true''" by (simp add: assigned_virtual_def)
    from Cons.prems False have lt: "joint_index < length (joint_ids s)" "joint_index < length (joints s)"
      by simp_all
    show ?thesis
    proof (cases "parameters c ''id''")
      case None
      then show ?thesis using v by (simp add: is_index_error_def)
    next
      case (Some t)
      show ?thesis
      proof (cases "stoi L t")
        case None
        then show ?thesis using v Some by (simp add: is_index_error_def)
      next
        case (Some n)
        let ?s1 = "s\<lparr>joint_ids := (joint_ids s)[joint_index := word_of_int n],
                      joints := (joints s)[joint_index :=
                        (joints s ! joint_index)
                          \<lparr>name := info_name c, state := quiet_NaN_value,
                           command := quiet_NaN_value\<rparr>]\<rparr>"
        let ?r = "if info_name c = ''gripper'' then gripper_setup L c joint_index ?s1 else Inr ?s1"
        show ?thesis
        proof (cases ?r)
          case (Inl e)
          then have "\<not> is_index_error (Inl e)"
            using gripper_setup_index_error [of L c joint_index ?s1]
            by (auto split: if_splits)
          then show ?thesis using v \<open>parameters c ''id'' = Some t\<close> Some lt Inl
            by (simp add: Let_def is_index_error_def)
        next
          case (Inr s2)
          then have len: "length (joint_ids s2) = length (joint_ids s) \<and>
              length (joints s2) = length (joints s) \<and>
              length (virtual_joints s2) = length (virtual_joints s)"
            using gripper_setup_lengths [of L c joint_index ?s1 s2]
            by (auto split: if_splits)
          have "\<not> is_index_error (assign_joints L cs (joint_index + 1) virtual_joint_index s2)"
            using Cons.prems False len by (intro Cons.IH) simp_all
          then show ?thesis using v \<open>parameters c ''id'' = Some t\<close> Some lt Inr
            by (simp add: Let_def)
        qed
      qed
    qed
  qed
qed

lemma assign_joints_overflow:
  assumes "joint_index \<le> n" "length (joint_ids s) = n" "length (joints s) = n"
    and "n < joint_index + length (filter (\<lambda>c. \<not> assigned_virtual c) cs)"
    and "virtual_joint_index + length (filter assigned_virtual cs) \<le> length (virtual_joints s)"
    and "\<forall>c\<in>set cs. \<not> assigned_virtual c \<longrightarrow> device_parameters_parse L c"
  shows "assign_joints L cs joint_index virtual_joint_index s = Inl (joint_index_out_of_bounds n)"
  using assms
proof (induction cs arbitrary: joint_index virtual_joint_index s)
  case Nil
  then show ?case by simp
next
  case (Cons c cs)
  show ?case
  proof (cases "assigned_virtual c")
    case True
    then have v: "parameters c ''is_virtual'' = Some ''true''" by (simp add: assigned_virtual_def)
    from Cons.prems True have lt: "virtual_joint_index < length (virtual_joints s)" by simp
    have "assign_joints L cs joint_index (virtual_joint_index + 1)
       (s\<lparr>virtual_joints := (virtual_joints s)[virtual_joint_index :=
                  (virtual_joints s ! virtual_joint_index)
                    \<lparr>name := info_name c, state := quiet_NaN_value,
                     command := quiet_NaN_value\<rparr>]\<rparr>) = Inl (joint_index_out_of_bounds n)"
      using Cons.prems True by (intro Cons.IH) simp_all
    then show ?thesis using v lt by simp
  next
    case False
    then have v: "parameters c ''is_virtual'' \<noteq> Some ''true''" by (simp add: assigned_virtual_def)
    from Cons.prems False have p: "device_parameters_parse L c" by simp
    then obtain t k where t: "parameters c ''id'' = Some t" and k: "stoi L t = Some k"
      by (auto simp: device_parameters_parse_def split: option.splits)
    show ?thesis
    proof (cases "joint_index < n")
      case lt: True
      let ?s1 = "s\<lparr>joint_ids := (joint_ids s)[joint_index := word_of_int k],
                    joints := (joints s)[joint_index :=
                      (joints s ! joint_index)
                        \<lparr>name := info_name c, state := quiet_NaN_value,
                         command := quiet_NaN_value\<rparr>]\<rparr>"
      let ?r = "if info_name c = ''gripper'' then gripper_setup L c joint_index ?s1 else Inr ?s1"
      obtain s2 where s2: "?r = Inr s2"
        using gripper_setup_parses [OF p, of joint_index ?s1] by (cases "info_name c = ''gripper''") auto
      then have len: "length (joint_ids s2) = length (joint_ids s) \<and>
              length (joints s2) = length (joints s) \<and>
              length (virtual_joints s2) = length (virtual_joints s)"
        using gripper_setup_lengths [of L c joint_index ?s1 s2]
        by (auto split: if_splits)
      have "assign_joints L cs (joint_index + 1) virtual_joint_index s2 =
          Inl (joint_index_out_of_bounds n)"
        using Cons.prems False len lt by (intro Cons.IH) simp_all
      then show ?thesis using v t k lt s2 Cons.prems(2,3)
        by (simp add: Let_def)
    next
      case ge: False
      with Cons.prems(1) have "joint_index = n" by simp
      then show ?thesis using v t k Cons.prems(2,3) by simp
    qed
  qed
qed

text \<open>
  A run of the two passes that succeeds leaves \<open>joint_ids_\<close> and \<open>joints_\<close> with the same
  size, the one \<open>enable_torque\<close>, \<open>read\<close> and \<open>write\<close> rely on.
\<close>

lemma assign_joints_lengths:
  "assign_joints L cs joint_index virtual_joint_index s = Inr s' \<Longrightarrow>
   length (joint_ids s') = length (joint_ids s) \<and> length (joints s') = length (joints s) \<and>
   length (virtual_joints s') = length (virtual_joints s)"
proof (induction cs arbitrary: joint_index virtual_joint_index s)
  case Nil
  then show ?case by simp
next
  case (Cons c cs)
  show ?case
  proof (cases "parameters c ''is_virtual'' = Some ''true''")
    case True
    with Cons.prems have lt: "virtual_joint_index < length (virtual_joints s)"
      by (simp split: if_splits)
    from Cons.prems True lt show ?thesis
      using Cons.IH [of joint_index "virtual_joint_index + 1"
          "s\<lparr>virtual_joints := (virtual_joints s)[virtual_joint_index :=
                  (virtual_joints s ! virtual_joint_index)
                    \<lparr>name := info_name c, state := quiet_NaN_value,
                     command := quiet_NaN_value\<rparr>]\<rparr>"]
      by simp
  next
    case False
    from Cons.prems False obtain t n s2 where
      t: "parameters c ''id'' = Some t" and n: "stoi L t = Some n"
      and lt: "joint_index < length (joint_ids s)" "joint_index < length (joints s)"
      and s2: "(if info_name c = ''gripper''
               then gripper_setup L c joint_index
                      (s\<lparr>joint_ids := (joint_ids s)[joint_index := word_of_int n],
                         joints := (joints s)[joint_index :=
                           (joints s ! joint_index)
                             \<lparr>name := info_name c, state := quiet_NaN_value,
                              command := quiet_NaN_value\<rparr>]\<rparr>)
               else Inr (s\<lparr>joint_ids := (joint_ids s)[joint_index := word_of_int n],
                         joints := (joints s)[joint_index :=
                           (joints s ! joint_index)
                             \<lparr>name := info_name c, state := quiet_NaN_value,
                              command := quiet_NaN_value\<rparr>]\<rparr>)) = Inr s2"
      and r: "assign_joints L cs (joint_index + 1) virtual_joint_index s2 = Inr s'"
      by (auto simp: Let_def split: option.splits if_splits sum.splits)
    have "length (joint_ids s2) = length (joint_ids s) \<and>
          length (joints s2) = length (joints s) \<and>
          length (virtual_joints s2) = length (virtual_joints s)"
      using s2 gripper_setup_lengths [of L c joint_index _ s2]
      by (auto split: if_splits)
    then show ?thesis using Cons.IH [OF r] by simp
  qed
qed

lemma configure_joints_sizes:
  "configure_joints L cfg s = Inr s' \<Longrightarrow> length (joint_ids s') = length (joints s')"
  using assign_joints_lengths [of L cfg 0 0 _ s']
  by (simp add: configure_joints_def Let_def resize_def)

lemma assign_joints_never_completes:
  assumes "joint_index \<le> n" "length (joint_ids s) = n" "length (joints s) = n"
    and "n < joint_index + length (filter (\<lambda>c. \<not> assigned_virtual c) cs)"
  shows "isl (assign_joints L cs joint_index virtual_joint_index s)"
  using assms
proof (induction cs arbitrary: joint_index virtual_joint_index s)
  case Nil
  then show ?case by simp
next
  case (Cons c cs)
  show ?case
  proof (cases "assigned_virtual c")
    case True
    then have v: "parameters c ''is_virtual'' = Some ''true''" by (simp add: assigned_virtual_def)
    have "isl (assign_joints L cs joint_index (virtual_joint_index + 1)
       (s\<lparr>virtual_joints := (virtual_joints s)[virtual_joint_index :=
                  (virtual_joints s ! virtual_joint_index)
                    \<lparr>name := info_name c, state := quiet_NaN_value,
                     command := quiet_NaN_value\<rparr>]\<rparr>))"
      using Cons.prems True by (intro Cons.IH) simp_all
    then show ?thesis using v by simp
  next
    case False
    then have v: "parameters c ''is_virtual'' \<noteq> Some ''true''" by (simp add: assigned_virtual_def)
    show ?thesis
    proof (cases "parameters c ''id''")
      case None
      then show ?thesis using v by simp
    next
      case (Some t)
      show ?thesis
      proof (cases "stoi L t")
        case None
        then show ?thesis using v Some by simp
      next
        case (Some k)
        show ?thesis
        proof (cases "joint_index < n")
          case ge: False
          then show ?thesis using v \<open>parameters c ''id'' = Some t\<close> Some Cons.prems(2,3) by simp
        next
          case lt: True
          let ?s1 = "s\<lparr>joint_ids := (joint_ids s)[joint_index := word_of_int k],
                        joints := (joints s)[joint_index :=
                          (joints s ! joint_index)
                            \<lparr>name := info_name c, state := quiet_NaN_value,
                             command := quiet_NaN_value\<rparr>]\<rparr>"
          let ?r = "if info_name c = ''gripper'' then gripper_setup L c joint_index ?s1 else Inr ?s1"
          show ?thesis
          proof (cases ?r)
            case (Inl e)
            then show ?thesis using v \<open>parameters c ''id'' = Some t\<close> Some lt Cons.prems(2,3)
              by (simp add: Let_def)
          next
            case (Inr s2)
            then have len: "length (joint_ids s2) = length (joint_ids s) \<and>
                length (joints s2) = length (joints s) \<and>
                length (virtual_joints s2) = length (virtual_joints s)"
              using gripper_setup_lengths [of L c joint_index ?s1 s2]
              by (auto split: if_splits)
            have "isl (assign_joints L cs (joint_index + 1) virtual_joint_index s2)"
              using Cons.prems False len lt by (intro Cons.IH) simp_all
            then show ?thesis using v \<open>parameters c ''id'' = Some t\<close> Some lt Inr Cons.prems(2,3)
              by (simp add: Let_def)
          qed
        qed
      qed
    qed
  qed
qed

lemma count_split:
  "length (filter (\<lambda>c. \<not> assigned_virtual c) cs) =
   length (filter (\<lambda>c. \<not> counted_virtual c) cs) +
   length (filter (\<lambda>c. counted_virtual c \<and> \<not> assigned_virtual c) cs)"
  by (induction cs) (auto simp: assigned_virtual_def counted_virtual_def)

lemma count_virtual_le:
  "length (filter assigned_virtual cs) \<le> length (filter counted_virtual cs)"
  by (induction cs) (auto simp: assigned_virtual_def counted_virtual_def)

lemma count_mismatch_zero:
  "(\<forall>c\<in>set cs. counted_virtual c \<longrightarrow> assigned_virtual c) \<Longrightarrow>
   length (filter (\<lambda>c. counted_virtual c \<and> \<not> assigned_virtual c) cs) = 0"
  by (induction cs) auto

lemma count_mismatch_pos:
  "\<exists>c\<in>set cs. counted_virtual c \<and> \<not> assigned_virtual c \<Longrightarrow>
   0 < length (filter (\<lambda>c. counted_virtual c \<and> \<not> assigned_virtual c) cs)"
  by (induction cs) auto

lemma configure_joints_unfold:
  "configure_joints L cfg s =
     assign_joints L cfg 0 0
       (s\<lparr>joints := resize (length (filter (\<lambda>c. \<not> counted_virtual c) cfg)) (Joint_default L) (joints s),
          virtual_joints := resize (length (filter counted_virtual cfg)) (Joint_default L)
            (virtual_joints s),
          joint_ids := resize (length (filter (\<lambda>c. \<not> counted_virtual c) cfg)) 0 (joint_ids s)\<rparr>)"
proof -
  have "filter counted_virtual cfg = filter (\<lambda>j. parameters j ''is_virtual'' \<noteq> None) cfg"
    by (rule filter_cong) (simp_all add: counted_virtual_def)
  then show ?thesis
    by (simp add: configure_joints_def Let_def counted_virtual_def)
qed

lemmas configure_defs =
  configure_joints_def gripper_setup_def resize_def quiet_NaN_value_def Let_def
  demo_library_def demo_info_def empty_hw_def counted_virtual_def assigned_virtual_def
  device_parameters_parse_def is_index_error_def

subsection \<open>The flags after a failing transition\<close>

lemma mode_transition_ok_mode:
  "fst (mode_transition w f m s) = OK \<Longrightarrow> control_mode (snd (mode_transition w f m s)) = m"
  by (auto simp add: mode_transition_unfold restore_torque_fields split: if_splits)

lemma group_transition_ok_mode:
  "fst (group_transition w mode force_set s) = OK \<Longrightarrow>
   control_mode (snd (group_transition w mode force_set s)) =
     (if transition_due mode force_set s then mode else control_mode s)"
  by (auto simp add: group_transition_def transition_due_def mode_transition_ok_mode
        split: if_splits)

lemma mode_transition_error_flag:
  assumes "fst (mode_transition w f m s) = ERROR"
  shows "steps (\<lambda>e. is_torque_call (ev_call e) \<or>
                   ev_torque e = torque_enabled (snd (mode_transition w f m s)))
           s (snd (mode_transition w f m s))"
    (is "steps ?P s _")
proof -
  let ?s1 = "release_torque w s"
  let ?r = "for_each_id w f (joint_ids s) ?s1"
  from assms have r: "\<not> fst ?r" "snd (mode_transition w f m s) = snd ?r"
    by (auto simp: mode_transition_unfold split: if_splits)
  have a: "steps ?P s ?s1"
    using release_torque_steps [of s w] by (auto elim!: steps_mono)
  have b: "steps ?P ?s1 (snd ?r)"
    using for_each_id_steps [of f "joint_ids s" ?s1 w]
    by (auto elim!: steps_mono simp: r for_each_id_fields)
  show ?thesis using a b r by (auto intro: steps_trans)
qed

lemma group_transition_error_flag:
  assumes "fst (group_transition w mode force_set s) = ERROR"
  shows "steps (\<lambda>e. is_torque_call (ev_call e) \<or>
                   ev_torque e = torque_enabled (snd (group_transition w mode force_set s)))
           s (snd (group_transition w mode force_set s))"
  using assms mode_transition_error_flag [of w SetVelocityControlMode Velocity s]
    mode_transition_error_flag [of w SetPositionControlMode Position s]
  by (auto simp: group_transition_def steps_refl split: if_splits)

lemma gripper_transition_error_flag:
  assumes "fst (gripper_transition w force_set s) = ERROR"
  shows "steps (\<lambda>e. is_torque_call (ev_call e) \<or>
                   ev_torque e = torque_enabled (snd (gripper_transition w force_set s)))
           s (snd (gripper_transition w force_set s))"
    (is "steps ?P s _")
proof -
  let ?s1 = "release_torque w s"
  let ?c1 = "call w (gripper_mode_call s) ?s1"
  let ?c2 = "call w (gripper_current_call w s) (snd ?c1)"
  have a: "steps (\<lambda>e. is_torque_call (ev_call e)) s ?s1"
    by (rule release_torque_steps)
  have b: "steps (\<lambda>e. ev_torque e = torque_enabled ?s1) ?s1 (snd ?c1)"
    using call_steps [of "gripper_mode_call s" ?s1 w] by (auto elim!: steps_mono)
  have c: "steps (\<lambda>e. ev_torque e = torque_enabled ?s1) (snd ?c1) (snd ?c2)"
    using call_steps [of "gripper_current_call w s" "snd ?c1" w]
    by (auto elim!: steps_mono simp: call_fields)
  from assms consider
      (first) "\<not> fst ?c1" "snd (gripper_transition w force_set s) = snd ?c1"
    | (second) "\<not> fst ?c2" "snd (gripper_transition w force_set s) = snd ?c2"
    by (auto simp: gripper_transition_unfold split: if_splits)
  then show ?thesis
  proof cases
    case first
    have "steps ?P s ?s1" using a by (auto elim!: steps_mono)
    moreover have "steps ?P ?s1 (snd ?c1)"
      using b by (auto elim!: steps_mono simp: first call_fields)
    ultimately show ?thesis using first by (auto intro: steps_trans)
  next
    case second
    have "steps ?P s ?s1" using a by (auto elim!: steps_mono)
    moreover have "steps ?P ?s1 (snd ?c1)"
      using b by (auto elim!: steps_mono simp: second call_fields)
    moreover have "steps ?P (snd ?c1) (snd ?c2)"
      using c by (auto elim!: steps_mono simp: second call_fields)
    ultimately have "steps ?P s (snd ?c2)" by (blast intro: steps_trans)
    then show ?thesis using second by simp
  qed
qed

lemma set_control_mode_failure_flag:
  assumes e: "e \<in> set (new_events s (snd (set_control_mode w mode force_set s)))"
    and k: "is_group_mode_set (ev_call e) \<or> is_gripper_call (ev_call e)"
    and nok: "\<not> ev_ok e"
  shows "torque_enabled (snd (set_control_mode w mode force_set s)) = ev_torque e"
proof -
  have nt: "\<not> is_torque_call (ev_call e)" using k by (cases "ev_call e") simp_all
  let ?s1 = "snd (group_transition w mode force_set s)"
  show ?thesis
  proof (cases "fst (group_transition w mode force_set s) = ERROR")
    case True
    then have "snd (set_control_mode w mode force_set s) = ?s1"
      by (simp add: set_control_mode_unfold)
    then show ?thesis
      using steps_new_events [OF group_transition_error_flag [OF True], of e] e nt by simp
  next
    case False
    then have ok: "fst (group_transition w mode force_set s) = OK"
      by (simp add: return_type_not_ERROR)
    have s': "snd (set_control_mode w mode force_set s) =
        snd (gripper_transition w force_set ?s1)"
      "fst (set_control_mode w mode force_set s) = fst (gripper_transition w force_set ?s1)"
      using False by (simp_all add: set_control_mode_unfold)
    have "fst (set_control_mode w mode force_set s) \<noteq> OK"
      using steps_new_events [OF set_control_mode_steps [of w mode force_set s] e] nt nok k
      by blast
    then have err: "fst (gripper_transition w force_set ?s1) = ERROR"
      using s'(2) by (cases "fst (gripper_transition w force_set ?s1)") simp_all
    have "(is_torque_call (ev_call e) \<or>
           is_group_mode_set (ev_call e) \<and>
           (fst (group_transition w mode force_set s) = OK \<longrightarrow> ev_ok e) \<and>
           (torque_off_ok w \<longrightarrow> \<not> ev_torque e)) \<or>
          (is_torque_call (ev_call e) \<or>
           ev_torque e = torque_enabled (snd (gripper_transition w force_set ?s1)))"
      using steps_split [OF group_transition_steps [of w mode force_set s]
          gripper_transition_error_flag [OF err]] e s'(1)
      by simp
    then show ?thesis using nt nok ok s'(1) by auto
  qed
qed

lemma set_control_mode_gripper_failure:
  assumes e: "e \<in> set (new_events s (snd (set_control_mode w mode force_set s)))"
    and g: "is_gripper_call (ev_call e)"
  shows "fst (group_transition w mode force_set s) = OK"
proof (rule ccontr)
  assume "fst (group_transition w mode force_set s) \<noteq> OK"
  then have err: "fst (group_transition w mode force_set s) = ERROR"
    by (cases "fst (group_transition w mode force_set s)") simp_all
  then have "snd (set_control_mode w mode force_set s) =
      snd (group_transition w mode force_set s)"
    by (simp add: set_control_mode_unfold)
  then have "is_torque_call (ev_call e) \<or> is_group_mode_set (ev_call e)"
    using steps_new_events [OF group_transition_steps [of w mode force_set s], of e] e
    by auto
  then show False using g by (cases "ev_call e") simp_all
qed

lemma set_control_mode_gripper_failure_mode:
  assumes e: "e \<in> set (new_events s (snd (set_control_mode w mode force_set s)))"
    and g: "is_gripper_call (ev_call e)"
  shows "control_mode (snd (set_control_mode w mode force_set s)) =
     (if transition_due mode force_set s then mode else control_mode s)"
  using set_control_mode_gripper_failure [OF e g]
  by (simp add: set_control_mode_unfold gripper_transition_fields group_transition_ok_mode)

subsection \<open>Cycles of \<open>write\<close> that keep the commands, and cycles that reset them\<close>

lemma accepts_all_torque: "accepts_all w \<Longrightarrow> torque_off_ok w \<and> torque_on_ok w"
  by (simp add: accepts_all_def torque_off_ok_def torque_on_ok_def)

lemma restore_torque_resets:
  assumes "torque_on_ok w" "\<not> torque_enabled s"
  shows "joints (restore_torque w True s) = map reset_joint (joints s) \<and>
         virtual_joints (restore_torque w True s) = map reset_joint (virtual_joints s) \<and>
         torque_enabled (restore_torque w True s)"
  using assms
  by (simp add: restore_torque_def enable_torque_joints enable_torque_on_ok enable_torque_flag)

lemma mode_transition_resets:
  assumes a: "accepts_all w" and t: "torque_enabled s"
  shows "fst (mode_transition w f m s) = OK \<and>
         joints (snd (mode_transition w f m s)) = map reset_joint (joints s) \<and>
         virtual_joints (snd (mode_transition w f m s)) = map reset_joint (virtual_joints s) \<and>
         torque_enabled (snd (mode_transition w f m s))"
proof -
  let ?s1 = "release_torque w s"
  let ?r = "for_each_id w f (joint_ids s) ?s1"
  let ?s3 = "(snd ?r)\<lparr>control_mode := m\<rparr>"
  have ok: "fst ?r" using a by (intro for_each_id_succeeds) (simp add: accepts_all_def)
  have off: "\<not> torque_enabled ?s3"
    using release_torque_off [of w s] accepts_all_torque [OF a]
    by (simp add: for_each_id_fields)
  have on: "torque_on_ok w" using accepts_all_torque [OF a] by simp
  have same: "joints ?s3 = joints s" "virtual_joints ?s3 = virtual_joints s"
    by (simp_all add: for_each_id_fields release_torque_fields)
  show ?thesis
    using restore_torque_resets [OF on off] ok t same
    by (simp add: mode_transition_unfold)
qed

lemma gripper_transition_resets:
  assumes a: "accepts_all w" and t: "torque_enabled s" and d: "gripper_due force_set s"
  shows "joints (snd (gripper_transition w force_set s)) = map reset_joint (joints s) \<and>
         virtual_joints (snd (gripper_transition w force_set s)) =
           map reset_joint (virtual_joints s)"
proof -
  let ?s1 = "release_torque w s"
  let ?c1 = "call w (gripper_mode_call s) ?s1"
  let ?c2 = "call w (gripper_current_call w s) (snd ?c1)"
  let ?s4 = "(snd ?c2)\<lparr>gripper_control_mode := CurrentBasedPosition\<rparr>"
  have ok: "fst ?c1" "fst ?c2" using a by (simp_all add: call_def Let_def accepts_all_def)
  have off: "\<not> torque_enabled ?s4"
    using release_torque_off [of w s] accepts_all_torque [OF a]
    by (simp add: call_fields)
  have on: "torque_on_ok w" using accepts_all_torque [OF a] by simp
  have same: "joints ?s4 = joints s" "virtual_joints ?s4 = virtual_joints s"
    by (simp_all add: call_fields release_torque_fields)
  have "gripper_transition w force_set s = (OK, restore_torque w True ?s4)"
    using d t ok by (simp add: gripper_transition_unfold gripper_due_def)
  then show ?thesis
    using restore_torque_resets [OF on off] same by simp
qed

lemma set_control_mode_resets:
  assumes a: "accepts_all w" and t: "torque_enabled s"
    and m: "mode = Velocity \<or> mode = Position"
    and d: "control_mode s \<noteq> mode \<or> gripper_due False s"
  shows "joints (snd (set_control_mode w mode False s)) = map reset_joint (joints s) \<and>
         virtual_joints (snd (set_control_mode w mode False s)) =
           map reset_joint (virtual_joints s)"
proof (cases "control_mode s = mode")
  case True
  with d have g: "gripper_due False s" by simp
  have "group_transition w mode False s = (OK, s)"
    using True m by (intro group_transition_idle) simp_all
  then show ?thesis
    using gripper_transition_resets [OF a t g] by (simp add: set_control_mode_unfold)
next
  case False
  let ?s1 = "snd (group_transition w mode False s)"
  have g: "group_transition w mode False s =
      mode_transition w (if mode = Velocity then SetVelocityControlMode
                         else SetPositionControlMode) mode s"
    using False m by (auto simp: group_transition_def)
  have r: "fst (group_transition w mode False s) = OK"
    "joints ?s1 = map reset_joint (joints s)"
    "virtual_joints ?s1 = map reset_joint (virtual_joints s)"
    using mode_transition_resets [OF a t] by (simp_all add: g)
  have "commands_kept_or_reset ?s1 (snd (gripper_transition w False ?s1))"
    by (rule gripper_transition_kept_or_reset)
  then show ?thesis
    using r by (auto simp: set_control_mode_unfold commands_kept_or_reset_def reset_joint_idem)
qed

lemma write_cases:
  obtains (dummy) "use_dummy s"
  | (velocity) "\<not> use_dummy s" "velocity_commanded s"
      "\<exists>j\<in>set (joints s). ne_zero (velocity (command j))"
  | (effort) "\<not> use_dummy s" "\<not> velocity_commanded s" "effort_commanded s"
      "\<forall>j\<in>set (joints s). eq_zero (velocity (command j))"
      "\<exists>j\<in>set (joints s). ne_zero (effort (command j))"
  | (position) "\<not> use_dummy s" "\<not> velocity_commanded s" "\<not> effort_commanded s"
      "\<forall>j\<in>set (joints s). eq_zero (velocity (command j))"
      "\<forall>j\<in>set (joints s). eq_zero (effort (command j))"
  by (auto simp: velocity_commanded_def effort_commanded_def list_ex_iff eq_zero_iff)

lemma write_virtual_kept:
  assumes "use_dummy s \<or> \<not> torque_enabled s \<or>
           \<not> velocity_commanded s \<and> effort_commanded s \<or>
           control_mode s = target_mode s \<and> \<not> gripper_due False s"
  shows "virtual_joints (snd (write' w s)) = map loop_back (virtual_joints s)"
proof (cases rule: write_cases [of s])
  case dummy
  then show ?thesis by (simp add: write_dummy_unfold looped_fields)
next
  case velocity
  from assms velocity consider "\<not> torque_enabled s"
    | "control_mode s = Velocity" "\<not> gripper_due False s"
    by (auto simp: target_mode_def)
  then show ?thesis
  proof cases
    case 1
    then show ?thesis using write_virtual_joints(2) [of s w] by (simp add: looped_fields)
  next
    case 2
    then have "set_control_mode w Velocity False (looped s) = (OK, looped s)"
      by (intro set_control_mode_idle) (auto simp: looped_fields gripper_due_def)
    then show ?thesis
      by (simp add: write_velocity_unfold [OF velocity(1,3)] call_fields looped_fields)
  qed
next
  case effort
  then show ?thesis by (simp add: write_effort_unfold looped_fields)
next
  case position
  from assms position consider "\<not> torque_enabled s"
    | "control_mode s = Position" "\<not> gripper_due False s"
    by (auto simp: target_mode_def)
  then show ?thesis
  proof cases
    case 1
    then show ?thesis using write_virtual_joints(2) [of s w] by (simp add: looped_fields)
  next
    case 2
    then have "set_control_mode w Position False (looped s) = (OK, looped s)"
      by (intro set_control_mode_idle) (auto simp: looped_fields gripper_due_def)
    then show ?thesis
      by (simp add: write_position_unfold [OF position(1,4,5)] call_fields looped_fields)
  qed
qed

lemma write_virtual_reset:
  assumes a: "accepts_all w" and d: "\<not> use_dummy s" and t: "torque_enabled s"
    and c: "velocity_commanded s \<or> \<not> effort_commanded s"
    and due: "control_mode s \<noteq> target_mode s \<or> gripper_due False s"
  shows "virtual_joints (snd (write' w s)) = map reset_joint (map loop_back (virtual_joints s))"
proof (cases rule: write_cases [of s])
  case dummy
  with d show ?thesis by simp
next
  case velocity
  have "control_mode (looped s) \<noteq> Velocity \<or> gripper_due False (looped s)"
    using due velocity by (simp add: target_mode_def looped_fields gripper_due_def)
  then have "virtual_joints (snd (set_control_mode w Velocity False (looped s))) =
      map reset_joint (virtual_joints (looped s))"
    using set_control_mode_resets [OF a, of "looped s" Velocity] t
    by (simp add: looped_fields)
  then show ?thesis
    by (simp add: write_velocity_unfold [OF velocity(1,3)] call_fields looped_fields)
next
  case effort
  with c show ?thesis by simp
next
  case position
  have "control_mode (looped s) \<noteq> Position \<or> gripper_due False (looped s)"
    using due position by (simp add: target_mode_def looped_fields gripper_due_def)
  then have "virtual_joints (snd (set_control_mode w Position False (looped s))) =
      map reset_joint (virtual_joints (looped s))"
    using set_control_mode_resets [OF a, of "looped s" Position] t
    by (simp add: looped_fields)
  then show ?thesis
    by (simp add: write_position_unfold [OF position(1,4,5)] call_fields looped_fields)
qed

subsection \<open>What \<open>read\<close> stores, entry by entry\<close>

lemmas read_history_defs =
  extracted_def sync_read_call_def extraction_def after_call_def history_at_current_def
  history_at_velocity_def history_at_position_def

lemma read_log:
  "\<not> use_dummy s \<Longrightarrow>
   bus_log (snd (read w s)) =
     after_call w s (extraction s kPresentPositionItem) (history_at_position w s)"
  by (simp add: read_def getSyncReadData_def Let_def split_def call_def read_history_defs)

lemma read_entry:
  assumes "\<not> use_dummy s" "i < length (joints s)"
  shows "state (joints (snd (read w s)) ! i) =
     \<lparr>position = convertValue2Radian w (ids_buffer s ! i)
                   (extracted w (history_at_position w s) (extraction s kPresentPositionItem) i),
      velocity = convertValue2Velocity w (ids_buffer s ! i)
                   (extracted w (history_at_velocity w s) (extraction s kPresentVelocityItem) i),
      effort = convertValue2Current w
                   (extracted w (history_at_current w s) (extraction s kPresentCurrentItem) i)\<rparr>"
  using assms
  by (simp add: read_def getSyncReadData_def Let_def split_def call_def store_state_def
        ids_buffer_length read_history_defs)

lemma extracted_None: "bus_data w h c i = None \<Longrightarrow> extracted w h c i = 0"
  by (simp add: extracted_def)

section \<open>The claims\<close>

subsection \<open>Torque safety of mode transitions\<close>

text \<open>
  Claim C1 (torque safety of mode transitions), as amended.  Along every sequence of
  \<open>set_control_mode\<close> calls, from any state, every mode-set bus call
  (\<open>setVelocityControlMode\<close>, \<open>setPositionControlMode\<close>,
  \<open>setCurrentBasedPositionControlMode\<close>) is issued while the tracked torque flag is off,
  provided the bus never refuses \<open>torqueOff\<close>; and a call that starts with torque enabled
  and returns \<open>OK\<close> ends with torque enabled, provided the bus never refuses \<open>torqueOn\<close>.
  The provisos are needed because \<open>set_control_mode\<close> drops the result of its nested
  \<open>enable_torque\<close> calls.
\<close>

theorem torque_safety:
  "(torque_off_ok w \<longrightarrow>
      (\<forall>e \<in> set (new_events s (set_control_mode_seq w cs s)).
         is_mode_set (ev_call e) \<longrightarrow> \<not> ev_torque e)) \<and>
   (torque_on_ok w \<and> torque_enabled s \<and> fst (set_control_mode w mode force_set s) = OK \<longrightarrow>
      torque_enabled (snd (set_control_mode w mode force_set s)))"
  using steps_new_events [OF set_control_mode_seq_steps [of w s cs]]
    set_control_mode_restores [of w s mode force_set]
  by blast

text \<open>
  Claim C1 as stated fails: torque is enabled, the bus refuses \<open>torqueOff\<close>, the refusal is
  dropped, and \<open>setVelocityControlMode\<close> is issued with the tracked torque flag still on.
\<close>

theorem torque_safety_counterexample:
  "torque_enabled demo_hw \<and>
   bus_log (snd (set_control_mode (demo_workbench torque_off_fails) Velocity False demo_hw)) =
     [\<lparr>ev_call = TorqueOff 1, ev_ok = False, ev_torque = True\<rparr>,
      \<lparr>ev_call = SetVelocityControlMode 1, ev_ok = True, ev_torque = True\<rparr>]"
  by (simp add: op_defs demo_defs)

text \<open>
  Claim C1 as amended, on a bus that accepts every call: Position to Velocity and back,
  with torque enabled at the start.
\<close>

theorem torque_safety_witness:
  "torque_off_ok (demo_workbench all_succeed) \<and>
   torque_on_ok (demo_workbench all_succeed) \<and>
   torque_enabled demo_hw \<and>
   fst (set_control_mode (demo_workbench all_succeed) Velocity False demo_hw) = OK \<and>
   new_events demo_hw
        (set_control_mode_seq (demo_workbench all_succeed)
           [(Velocity, False), (Position, False)] demo_hw) =
     [\<lparr>ev_call = TorqueOff 1, ev_ok = True, ev_torque = True\<rparr>,
      \<lparr>ev_call = SetVelocityControlMode 1, ev_ok = True, ev_torque = False\<rparr>,
      \<lparr>ev_call = TorqueOn 1, ev_ok = True, ev_torque = False\<rparr>,
      \<lparr>ev_call = TorqueOff 1, ev_ok = True, ev_torque = True\<rparr>,
      \<lparr>ev_call = SetPositionControlMode 1, ev_ok = True, ev_torque = False\<rparr>,
      \<lparr>ev_call = TorqueOn 1, ev_ok = True, ev_torque = False\<rparr>] \<and>
   torque_enabled (snd (set_control_mode (demo_workbench all_succeed) Velocity False demo_hw))"
  using torque_safety [of "demo_workbench all_succeed" demo_hw
      "[(Velocity, False), (Position, False)]" Velocity False]
  by (simp add: torque_off_ok_def torque_on_ok_def new_events_def op_defs demo_defs)

subsection \<open>Velocity priority in \<open>write\<close>\<close>

text \<open>
  Claim C2 (velocity priority), as amended.  Outside dummy mode, when some device-backed
  joint has \<open>command.velocity != 0.0\<close>, \<open>write\<close> calls \<open>set_control_mode(Velocity)\<close>
  without force, converts the \<open>command.velocity\<close> every device-backed joint holds after that
  call, issues exactly one sync write, on the goal-velocity handler and over all device
  ids, hence no position write, and returns \<open>OK\<close>.  The converted values are those of the
  commanded velocities when torque is disabled or no transition is due; otherwise they are
  either those or, when the transition re-enabled torque and so reset the commands, the
  conversion of \<open>0.0\<close> for every joint.
\<close>

theorem velocity_priority:
  assumes "\<not> use_dummy s"
    and "\<exists>j\<in>set (joints s). ne_zero (velocity (command j))"
    and "length (joint_ids s) = length (joints s)"
  shows "(let s2 = snd (set_control_mode w Velocity False (looped s));
              payload = raw_commands w (convertVelocity2Value w) velocity (joint_ids s) (joints s2)
          in write' w s = (OK, snd (call w (SyncWrite kGoalVelocityIndex (joint_ids s) payload) s2)) \<and>
             sync_writes (new_events s (snd (write' w s))) =
               [SyncWrite kGoalVelocityIndex (joint_ids s) payload] \<and>
             (joints s2 = joints s \<or> joints s2 = map reset_joint (joints s)) \<and>
             (\<not> torque_enabled s \<or>
              control_mode s = Velocity \<and>
              (gripper_id s = 255 \<or> gripper_control_mode s = CurrentBasedPosition) \<longrightarrow>
              joints s2 = joints s))"
  using assms by (rule write_velocity_branch)

text \<open>
  Claim C2 as stated fails: torque is enabled and the group is in Position mode, the arm is
  commanded the velocity 2.0; the transition to Velocity mode re-enables torque, which
  resets the commands, and the sync write carries the conversion of 0.0 (raw 0), not of
  the commanded velocity (raw 1).
\<close>

theorem velocity_priority_counterexample:
  "velocity (command (demo_arm (Fin 2) (Fin 0))) = Fin 2 \<and>
   joints demo_hw = [demo_arm (Fin 2) (Fin 0)] \<and>
   sync_writes (bus_log (snd (write' (demo_workbench all_succeed) demo_hw))) =
     [SyncWrite kGoalVelocityIndex [1] [0]] \<and>
   raw_commands (demo_workbench all_succeed)
     (convertVelocity2Value (demo_workbench all_succeed)) velocity [1] (joints demo_hw) = [1]"
  by (simp add: write_defs op_defs demo_defs)

text \<open>Claim C2 as amended, with torque disabled: the commanded velocity is converted.\<close>

theorem velocity_priority_witness:
  "\<not> use_dummy (demo_hw\<lparr>torque_enabled := False\<rparr>) \<and>
   ne_zero (velocity (command (demo_arm (Fin 2) (Fin 0)))) \<and>
   joints (demo_hw\<lparr>torque_enabled := False\<rparr>) = [demo_arm (Fin 2) (Fin 0)] \<and>
   length (joint_ids (demo_hw\<lparr>torque_enabled := False\<rparr>)) =
     length (joints (demo_hw\<lparr>torque_enabled := False\<rparr>)) \<and>
   fst (write' (demo_workbench all_succeed) (demo_hw\<lparr>torque_enabled := False\<rparr>)) = OK \<and>
   sync_writes (new_events (demo_hw\<lparr>torque_enabled := False\<rparr>)
      (snd (write' (demo_workbench all_succeed) (demo_hw\<lparr>torque_enabled := False\<rparr>)))) =
     [SyncWrite kGoalVelocityIndex [1] [1]]"
  using velocity_priority [of "demo_hw\<lparr>torque_enabled := False\<rparr>" "demo_workbench all_succeed"]
  by (simp add: write_defs op_defs demo_defs)

subsection \<open>Gripper mode\<close>

text \<open>
  Claim C3 on the code: an arm (id 1) and the gripper (id 2).  Bring-up forces Position
  mode, which leaves the gripper in current-based position mode.  The next \<open>write\<close> with a
  velocity command for the arm switches the group to Velocity mode: the group loop runs
  over all of \<open>joint_ids_\<close>, the gripper's id included, and the gripper block is skipped
  because the tracked gripper mode is already \<open>CurrentBasedPosition\<close>.  The last mode-set
  call addressed to the gripper is \<open>setVelocityControlMode\<close>.
\<close>

theorem gripper_mode_overridden:
  "gripper_id demo_gripper_hw = 2 \<and>
   gripper_control_mode
     (snd (set_control_mode (demo_workbench all_succeed) Position True demo_gripper_hw)) =
     CurrentBasedPosition \<and>
   map ev_call (bus_log (snd (write' (demo_workbench all_succeed)
     (snd (set_control_mode (demo_workbench all_succeed) Position True demo_gripper_hw))))) =
     [SetPositionControlMode 1, SetPositionControlMode 2,
      SetCurrentBasedPositionControlMode 2, ItemWrite 2 ''Goal_Current'' 1,
      SetVelocityControlMode 1, SetVelocityControlMode 2,
      SyncWrite 1 [1, 2] [1, 0]] \<and>
   gripper_control_mode (snd (write' (demo_workbench all_succeed)
     (snd (set_control_mode (demo_workbench all_succeed) Position True demo_gripper_hw)))) =
     CurrentBasedPosition"
  by (simp add: write_defs op_defs demo_defs)

subsection \<open>Effort rejection\<close>

text \<open>
  Claim C4 (effort rejection).  Outside dummy mode, when every device-backed joint has
  \<open>command.velocity == 0.0\<close> and some device-backed joint has \<open>command.effort != 0.0\<close>,
  \<open>write\<close> returns \<open>ERROR\<close>, makes no call on the bus, and leaves the tracked control
  mode (and the gripper mode and the torque flag) unchanged.
\<close>

theorem effort_rejection:
  assumes "\<not> use_dummy s"
    and "\<forall>j\<in>set (joints s). eq_zero (velocity (command j))"
    and "\<exists>j\<in>set (joints s). ne_zero (effort (command j))"
  shows "fst (write' w s) = ERROR \<and>
         bus_log (snd (write' w s)) = bus_log s \<and>
         control_mode (snd (write' w s)) = control_mode s \<and>
         gripper_control_mode (snd (write' w s)) = gripper_control_mode s \<and>
         torque_enabled (snd (write' w s)) = torque_enabled s \<and>
         joints (snd (write' w s)) = joints s"
  by (simp add: write_effort_unfold [OF assms] looped_fields)

text \<open>Claim C4 on one arm with zero velocity and effort 5.0.\<close>

theorem effort_rejection_witness:
  "\<not> use_dummy (demo_hw\<lparr>joints := [demo_arm (Fin 0) (Fin 5)]\<rparr>) \<and>
   eq_zero (velocity (command (demo_arm (Fin 0) (Fin 5)))) \<and>
   ne_zero (effort (command (demo_arm (Fin 0) (Fin 5)))) \<and>
   fst (write' (demo_workbench all_succeed) (demo_hw\<lparr>joints := [demo_arm (Fin 0) (Fin 5)]\<rparr>))
     = ERROR \<and>
   bus_log (snd (write' (demo_workbench all_succeed)
     (demo_hw\<lparr>joints := [demo_arm (Fin 0) (Fin 5)]\<rparr>))) = [] \<and>
   control_mode (snd (write' (demo_workbench all_succeed)
     (demo_hw\<lparr>joints := [demo_arm (Fin 0) (Fin 5)]\<rparr>))) = Position"
  using effort_rejection [of "demo_hw\<lparr>joints := [demo_arm (Fin 0) (Fin 5)]\<rparr>"
      "demo_workbench all_succeed"]
  by (simp add: write_defs op_defs eq_zero_def demo_defs)

subsection \<open>Failing transitions\<close>

text \<open>
  Claim C5 (transition-failure atomicity), as amended.  An \<open>enable_torque\<close> call in which
  a bus call fails returns \<open>ERROR\<close> and leaves the tracked control mode, gripper mode and
  torque flag as they were.  A \<open>set_control_mode\<close> call in which a mode-set call of the
  group loop, the gripper mode-set call or the gripper goal-current write fails returns
  \<open>ERROR\<close> and leaves the tracked gripper mode as it was.  It leaves the tracked control
  mode as it was when the failing call belongs to the group loop, and also when it belongs
  to the gripper block and no group transition was due; when a group transition was due
  and the gripper block fails after it, the control mode is the new one.  The torque flag
  is left as it stood when the failing call was issued: it is never raised (a call that
  starts with torque disabled ends with torque disabled), and it is off whenever the bus
  does not refuse \<open>torqueOff\<close>, also when it was on before the call.
\<close>

theorem transition_failure:
  "((\<exists>e \<in> set (new_events s (snd (enable_torque w b s))). \<not> ev_ok e) \<longrightarrow>
      fst (enable_torque w b s) = ERROR \<and>
      control_mode (snd (enable_torque w b s)) = control_mode s \<and>
      gripper_control_mode (snd (enable_torque w b s)) = gripper_control_mode s \<and>
      torque_enabled (snd (enable_torque w b s)) = torque_enabled s) \<and>
   ((\<exists>e \<in> set (new_events s (snd (set_control_mode w mode force_set s))).
       (is_group_mode_set (ev_call e) \<or> is_gripper_call (ev_call e)) \<and> \<not> ev_ok e) \<longrightarrow>
      fst (set_control_mode w mode force_set s) = ERROR \<and>
      gripper_control_mode (snd (set_control_mode w mode force_set s)) = gripper_control_mode s) \<and>
   ((\<exists>e \<in> set (new_events s (snd (set_control_mode w mode force_set s))).
       is_group_mode_set (ev_call e) \<and> \<not> ev_ok e) \<longrightarrow>
      control_mode (snd (set_control_mode w mode force_set s)) = control_mode s) \<and>
   (\<forall>e \<in> set (new_events s (snd (set_control_mode w mode force_set s))).
       (is_group_mode_set (ev_call e) \<or> is_gripper_call (ev_call e)) \<and> \<not> ev_ok e \<longrightarrow>
       torque_enabled (snd (set_control_mode w mode force_set s)) = ev_torque e) \<and>
   ((\<exists>e \<in> set (new_events t (snd (set_control_mode v mode' force_set' t))).
       is_gripper_call (ev_call e) \<and> \<not> ev_ok e) \<longrightarrow>
      control_mode (snd (set_control_mode v mode' force_set' t)) =
        (if transition_due mode' force_set' t then mode' else control_mode t)) \<and>
   (torque_off_ok v \<and>
    (\<exists>e \<in> set (new_events t (snd (set_control_mode v mode' force_set' t))).
       (is_group_mode_set (ev_call e) \<or> is_gripper_call (ev_call e)) \<and> \<not> ev_ok e) \<longrightarrow>
      \<not> torque_enabled (snd (set_control_mode v mode' force_set' t))) \<and>
   (\<not> torque_enabled r \<longrightarrow>
      \<not> torque_enabled (snd (set_control_mode u mode'' force_set'' r)))"
proof (intro conjI impI ballI)
  assume "\<exists>e \<in> set (new_events s (snd (enable_torque w b s))). \<not> ev_ok e"
  then have "fst (enable_torque w b s) \<noteq> OK"
    using steps_new_events [OF enable_torque_steps [of w b s]] by blast
  then show err: "fst (enable_torque w b s) = ERROR"
    by (cases "fst (enable_torque w b s)") simp_all
  show "control_mode (snd (enable_torque w b s)) = control_mode s"
    "gripper_control_mode (snd (enable_torque w b s)) = gripper_control_mode s"
    by (simp_all add: enable_torque_fields)
  show "torque_enabled (snd (enable_torque w b s)) = torque_enabled s"
    using err by (simp add: enable_torque_flag)
next
  assume "\<exists>e \<in> set (new_events s (snd (set_control_mode w mode force_set s))).
       (is_group_mode_set (ev_call e) \<or> is_gripper_call (ev_call e)) \<and> \<not> ev_ok e"
  then obtain e where e: "e \<in> set (new_events s (snd (set_control_mode w mode force_set s)))"
    "is_group_mode_set (ev_call e) \<or> is_gripper_call (ev_call e)" "\<not> ev_ok e"
    by blast
  have "is_torque_call (ev_call e) \<or> (fst (set_control_mode w mode force_set s) = OK \<longrightarrow> ev_ok e)"
    using steps_new_events [OF set_control_mode_steps [of w mode force_set s] e(1)] by blast
  moreover have "\<not> is_torque_call (ev_call e)"
    using e(2) by (cases "ev_call e") simp_all
  ultimately have "fst (set_control_mode w mode force_set s) \<noteq> OK" using e(3) by blast
  then show err: "fst (set_control_mode w mode force_set s) = ERROR"
    by (cases "fst (set_control_mode w mode force_set s)") simp_all
  then show "gripper_control_mode (snd (set_control_mode w mode force_set s)) =
    gripper_control_mode s"
    by (rule set_control_mode_error_gripper_mode)
next
  assume "\<exists>e \<in> set (new_events s (snd (set_control_mode w mode force_set s))).
       is_group_mode_set (ev_call e) \<and> \<not> ev_ok e"
  then have "fst (group_transition w mode force_set s) = ERROR"
    using set_control_mode_group_failure [of _ s w mode force_set] by blast
  then show "control_mode (snd (set_control_mode w mode force_set s)) = control_mode s"
    using set_control_mode_group_error [of w mode force_set s] by simp
next
  fix e
  assume "e \<in> set (new_events s (snd (set_control_mode w mode force_set s)))"
    and "(is_group_mode_set (ev_call e) \<or> is_gripper_call (ev_call e)) \<and> \<not> ev_ok e"
  then show "torque_enabled (snd (set_control_mode w mode force_set s)) = ev_torque e"
    using set_control_mode_failure_flag [of e s w mode force_set] by blast
next
  assume "\<exists>e \<in> set (new_events t (snd (set_control_mode v mode' force_set' t))).
       is_gripper_call (ev_call e) \<and> \<not> ev_ok e"
  then show "control_mode (snd (set_control_mode v mode' force_set' t)) =
        (if transition_due mode' force_set' t then mode' else control_mode t)"
    using set_control_mode_gripper_failure_mode [of _ t v mode' force_set'] by blast
next
  assume a: "torque_off_ok v \<and>
    (\<exists>e \<in> set (new_events t (snd (set_control_mode v mode' force_set' t))).
       (is_group_mode_set (ev_call e) \<or> is_gripper_call (ev_call e)) \<and> \<not> ev_ok e)"
  then obtain e where e: "e \<in> set (new_events t (snd (set_control_mode v mode' force_set' t)))"
    "is_group_mode_set (ev_call e) \<or> is_gripper_call (ev_call e)" "\<not> ev_ok e"
    by blast
  have "\<not> is_torque_call (ev_call e)"
    using e(2) by (cases "ev_call e") simp_all
  then have "\<not> ev_torque e"
    using steps_new_events [OF set_control_mode_steps [of v mode' force_set' t] e(1)] a
    by blast
  then show "\<not> torque_enabled (snd (set_control_mode v mode' force_set' t))"
    using set_control_mode_failure_flag [OF e] by simp
next
  assume "\<not> torque_enabled r"
  then show "\<not> torque_enabled (snd (set_control_mode u mode'' force_set'' r))"
    by (simp add: set_control_mode_torque_off)
qed

text \<open>
  Claim C5 as stated fails for \<open>set_control_mode\<close>.  When the mode-set call fails after
  torque was switched off, the call returns \<open>ERROR\<close> with the torque flag off although it
  was on before.  When only \<open>torqueOff\<close> fails, the call returns \<open>OK\<close>.  When the group
  transition succeeds and the gripper mode-set call then fails, the call returns \<open>ERROR\<close>
  with the control mode changed from Position to Velocity.
\<close>

theorem transition_failure_counterexample:
  "torque_enabled demo_hw \<and>
   fst (set_control_mode (demo_workbench mode_set_fails) Velocity False demo_hw) = ERROR \<and>
   torque_enabled (snd (set_control_mode (demo_workbench mode_set_fails) Velocity False demo_hw))
     = False \<and>
   fst (set_control_mode (demo_workbench torque_off_fails) Velocity False demo_hw) = OK \<and>
   bus_log (snd (set_control_mode (demo_workbench mode_set_fails) Velocity False demo_hw)) =
     [\<lparr>ev_call = TorqueOff 1, ev_ok = True, ev_torque = True\<rparr>,
      \<lparr>ev_call = SetVelocityControlMode 1, ev_ok = False, ev_torque = False\<rparr>] \<and>
   control_mode demo_gripper_hw = Position \<and>
   fst (set_control_mode (demo_workbench gripper_calls_fail) Velocity False demo_gripper_hw)
     = ERROR \<and>
   control_mode
     (snd (set_control_mode (demo_workbench gripper_calls_fail) Velocity False demo_gripper_hw))
     = Velocity \<and>
   map ev_ok (bus_log
     (snd (set_control_mode (demo_workbench gripper_calls_fail) Velocity False demo_gripper_hw)))
     = [True, True, False]"
  by (simp add: op_defs demo_defs gripper_calls_fail_def)

text \<open>
  Claim C5 as amended.  On a bus that refuses every call: \<open>enable_torque(false)\<close> fails,
  and \<open>set_control_mode(Velocity)\<close> fails in the group loop with the torque flag still on,
  as it stood when the failing call was issued.  On a bus that refuses the gripper calls
  only, with torque enabled: the group transition succeeds, the gripper block fails, the
  control mode is the new one and the torque flag is left off.  With torque disabled the
  flag stays off.
\<close>

theorem transition_failure_witness:
  "(\<exists>e \<in> set (new_events demo_hw (snd (enable_torque (demo_workbench all_fail) False demo_hw))).
       \<not> ev_ok e) \<and>
   fst (enable_torque (demo_workbench all_fail) False demo_hw) = ERROR \<and>
   control_mode (snd (enable_torque (demo_workbench all_fail) False demo_hw)) = Position \<and>
   gripper_control_mode (snd (enable_torque (demo_workbench all_fail) False demo_hw)) = Unset \<and>
   torque_enabled (snd (enable_torque (demo_workbench all_fail) False demo_hw)) = True \<and>
   new_events demo_hw (snd (set_control_mode (demo_workbench all_fail) Velocity False demo_hw)) =
     [\<lparr>ev_call = TorqueOff 1, ev_ok = False, ev_torque = True\<rparr>,
      \<lparr>ev_call = SetVelocityControlMode 1, ev_ok = False, ev_torque = True\<rparr>] \<and>
   fst (set_control_mode (demo_workbench all_fail) Velocity False demo_hw) = ERROR \<and>
   gripper_control_mode (snd (set_control_mode (demo_workbench all_fail) Velocity False demo_hw))
     = Unset \<and>
   control_mode (snd (set_control_mode (demo_workbench all_fail) Velocity False demo_hw))
     = Position \<and>
   torque_enabled (snd (set_control_mode (demo_workbench all_fail) Velocity False demo_hw))
     = True \<and>
   torque_off_ok (demo_workbench gripper_calls_fail) \<and>
   torque_enabled (demo_gripper_hw\<lparr>torque_enabled := True\<rparr>) \<and>
   transition_due Velocity False (demo_gripper_hw\<lparr>torque_enabled := True\<rparr>) \<and>
   new_events (demo_gripper_hw\<lparr>torque_enabled := True\<rparr>)
     (snd (set_control_mode (demo_workbench gripper_calls_fail) Velocity False
        (demo_gripper_hw\<lparr>torque_enabled := True\<rparr>))) =
     [\<lparr>ev_call = TorqueOff 1, ev_ok = True, ev_torque = True\<rparr>,
      \<lparr>ev_call = TorqueOff 2, ev_ok = True, ev_torque = True\<rparr>,
      \<lparr>ev_call = SetVelocityControlMode 1, ev_ok = True, ev_torque = False\<rparr>,
      \<lparr>ev_call = SetVelocityControlMode 2, ev_ok = True, ev_torque = False\<rparr>,
      \<lparr>ev_call = TorqueOn 1, ev_ok = True, ev_torque = False\<rparr>,
      \<lparr>ev_call = TorqueOn 2, ev_ok = True, ev_torque = False\<rparr>,
      \<lparr>ev_call = TorqueOff 1, ev_ok = True, ev_torque = True\<rparr>,
      \<lparr>ev_call = TorqueOff 2, ev_ok = True, ev_torque = True\<rparr>,
      \<lparr>ev_call = SetCurrentBasedPositionControlMode 2, ev_ok = False, ev_torque = False\<rparr>] \<and>
   control_mode (snd (set_control_mode (demo_workbench gripper_calls_fail) Velocity False
        (demo_gripper_hw\<lparr>torque_enabled := True\<rparr>))) = Velocity \<and>
   \<not> torque_enabled (snd (set_control_mode (demo_workbench gripper_calls_fail) Velocity False
        (demo_gripper_hw\<lparr>torque_enabled := True\<rparr>))) \<and>
   \<not> torque_enabled demo_gripper_hw \<and>
   \<not> torque_enabled (snd (set_control_mode (demo_workbench all_fail) Velocity False
        demo_gripper_hw))"
proof -
  have a: "\<exists>e \<in> set (new_events demo_hw
      (snd (enable_torque (demo_workbench all_fail) False demo_hw))). \<not> ev_ok e"
    by (simp add: new_events_def op_defs demo_defs)
  have n1: "new_events demo_hw
      (snd (set_control_mode (demo_workbench all_fail) Velocity False demo_hw)) =
     [\<lparr>ev_call = TorqueOff 1, ev_ok = False, ev_torque = True\<rparr>,
      \<lparr>ev_call = SetVelocityControlMode 1, ev_ok = False, ev_torque = True\<rparr>]"
    by (simp add: new_events_def op_defs demo_defs)
  have n2: "new_events (demo_gripper_hw\<lparr>torque_enabled := True\<rparr>)
     (snd (set_control_mode (demo_workbench gripper_calls_fail) Velocity False
        (demo_gripper_hw\<lparr>torque_enabled := True\<rparr>))) =
     [\<lparr>ev_call = TorqueOff 1, ev_ok = True, ev_torque = True\<rparr>,
      \<lparr>ev_call = TorqueOff 2, ev_ok = True, ev_torque = True\<rparr>,
      \<lparr>ev_call = SetVelocityControlMode 1, ev_ok = True, ev_torque = False\<rparr>,
      \<lparr>ev_call = SetVelocityControlMode 2, ev_ok = True, ev_torque = False\<rparr>,
      \<lparr>ev_call = TorqueOn 1, ev_ok = True, ev_torque = False\<rparr>,
      \<lparr>ev_call = TorqueOn 2, ev_ok = True, ev_torque = False\<rparr>,
      \<lparr>ev_call = TorqueOff 1, ev_ok = True, ev_torque = True\<rparr>,
      \<lparr>ev_call = TorqueOff 2, ev_ok = True, ev_torque = True\<rparr>,
      \<lparr>ev_call = SetCurrentBasedPositionControlMode 2, ev_ok = False, ev_torque = False\<rparr>]"
    by (simp add: new_events_def op_defs demo_defs gripper_calls_fail_def)
  have c: "control_mode demo_hw = Position" "gripper_control_mode demo_hw = Unset"
    "torque_enabled demo_hw = True"
    "torque_off_ok (demo_workbench gripper_calls_fail)"
    "torque_enabled (demo_gripper_hw\<lparr>torque_enabled := True\<rparr>)"
    "transition_due Velocity False (demo_gripper_hw\<lparr>torque_enabled := True\<rparr>)"
    "\<not> torque_enabled demo_gripper_hw"
    by (simp_all add: demo_defs torque_off_ok_def gripper_calls_fail_def transition_due_def)
  show ?thesis
    using transition_failure [where s = demo_hw and w = "demo_workbench all_fail" and b = False
        and mode = Velocity and force_set = False
        and t = "demo_gripper_hw\<lparr>torque_enabled := True\<rparr>"
        and v = "demo_workbench gripper_calls_fail" and mode' = Velocity and force_set' = False
        and r = demo_gripper_hw and u = "demo_workbench all_fail" and mode'' = Velocity
        and force_set'' = False]
      a c
    by (simp add: n1 n2)
qed

subsection \<open>Failing reads\<close>

text \<open>
  Claim C6 (read failures), as amended.  \<open>read\<close> returns \<open>OK\<close> whatever the sync read and
  the extraction calls report.  Outside dummy mode it then overwrites the state of every
  device-backed joint with the conversion of the raw arrays as the calls left them: entry
  \<open>i\<close> of an array holds what the extraction call stored there, or the zero it was
  initialised with.  So the position, the velocity or the effort of joint \<open>i\<close> becomes the
  conversion of raw zero wherever the call stored nothing at \<open>i\<close>, whatever it was before;
  when nothing is stored at all, every state is the conversion of raw zero.  In no case do
  the states after \<open>read\<close> depend on the states before it.  Commands, names, virtual
  joints, control mode and torque flag are unchanged.
\<close>

theorem read_failure:
  "fst (read w s) = OK \<and>
   (\<not> use_dummy s \<and> length (joint_ids s) = length (joints s) \<and> stores_nothing w \<longrightarrow>
      map state (joints (snd (read w s))) =
        map (\<lambda>i. \<lparr>position = convertValue2Radian w i 0,
                   velocity = convertValue2Velocity w i 0,
                   effort = convertValue2Current w 0\<rparr>) (joint_ids s)) \<and>
   (\<not> use_dummy s \<and> length js = length (joints s) \<longrightarrow>
      map state (joints (snd (read w (s\<lparr>joints := js\<rparr>)))) =
      map state (joints (snd (read w s)))) \<and>
   map command (joints (snd (read w s))) = map command (joints s) \<and>
   map name (joints (snd (read w s))) = map name (joints s) \<and>
   virtual_joints (snd (read w s)) = virtual_joints s \<and>
   control_mode (snd (read w s)) = control_mode s \<and>
   torque_enabled (snd (read w s)) = torque_enabled s \<and>
   (\<not> use_dummy t \<and> i < length (joints t) \<longrightarrow>
      bus_log (snd (read v t)) =
        after_call v t (extraction t kPresentPositionItem) (history_at_position v t) \<and>
      state (joints (snd (read v t)) ! i) =
        \<lparr>position = convertValue2Radian v (ids_buffer t ! i)
           (extracted v (history_at_position v t) (extraction t kPresentPositionItem) i),
         velocity = convertValue2Velocity v (ids_buffer t ! i)
           (extracted v (history_at_velocity v t) (extraction t kPresentVelocityItem) i),
         effort = convertValue2Current v
           (extracted v (history_at_current v t) (extraction t kPresentCurrentItem) i)\<rparr>) \<and>
   (\<not> use_dummy t \<and> i < length (joints t) \<and>
    bus_data v (history_at_position v t) (extraction t kPresentPositionItem) i = None \<longrightarrow>
      position (state (joints (snd (read v t)) ! i)) =
        convertValue2Radian v (ids_buffer t ! i) 0) \<and>
   (\<not> use_dummy t \<and> i < length (joints t) \<and>
    bus_data v (history_at_velocity v t) (extraction t kPresentVelocityItem) i = None \<longrightarrow>
      velocity (state (joints (snd (read v t)) ! i)) =
        convertValue2Velocity v (ids_buffer t ! i) 0) \<and>
   (\<not> use_dummy t \<and> i < length (joints t) \<and>
    bus_data v (history_at_current v t) (extraction t kPresentCurrentItem) i = None \<longrightarrow>
      effort (state (joints (snd (read v t)) ! i)) = convertValue2Current v 0)"
  using read_states [of s w] read_forgets_state [of s js w] read_log [of t v]
    read_entry [of t i v]
  by (simp add: read_returns_OK read_frame extracted_None)

text \<open>
  Claim C6 as stated fails: the arm's state position is 1.0; every call on the bus fails
  and stores nothing; \<open>read\<close> returns \<open>OK\<close> and the state position is now the conversion of
  raw zero, 0.0.
\<close>

theorem read_failure_counterexample:
  "map state (joints demo_hw) = [demo_value (Fin 1) (Fin 0) (Fin 0)] \<and>
   fst (read (demo_workbench all_fail) demo_hw) = OK \<and>
   map ev_ok (bus_log (snd (read (demo_workbench all_fail) demo_hw))) =
     [False, False, False, False] \<and>
   map state (joints (snd (read (demo_workbench all_fail) demo_hw))) =
     [demo_value (Fin 0) (Fin 0) (Fin 0)]"
  by (simp add: read_defs call_def Let_def demo_defs)

text \<open>
  Claim C6 as amended.  On a bus that refuses every call and stores nothing, the arm's
  state becomes the conversion of raw zero, also from another previous state.  On a bus
  that refuses every call and stores the raw value 5 at index 0 only, with an arm and a
  gripper: the state of the gripper (index 1), where nothing is stored, goes from position
  1.0 to the conversion of raw zero, and the state of the arm is the conversion of what
  was stored.
\<close>

theorem read_failure_witness:
  "\<not> use_dummy demo_hw \<and>
   length (joint_ids demo_hw) = length (joints demo_hw) \<and>
   stores_nothing (demo_workbench all_fail) \<and>
   fst (read (demo_workbench all_fail) demo_hw) = OK \<and>
   map state (joints (snd (read (demo_workbench all_fail) demo_hw))) =
     [demo_value (Fin 0) (Fin 0) (Fin 0)] \<and>
   length [(demo_arm (Fin 2) (Fin 0))\<lparr>state := demo_value (Fin 7) (Fin 7) (Fin 7)\<rparr>] =
     length (joints demo_hw) \<and>
   map state (joints (snd (read (demo_workbench all_fail)
     (demo_hw\<lparr>joints :=
        [(demo_arm (Fin 2) (Fin 0))\<lparr>state := demo_value (Fin 7) (Fin 7) (Fin 7)\<rparr>]\<rparr>)))) =
     [demo_value (Fin 0) (Fin 0) (Fin 0)] \<and>
   map command (joints (snd (read (demo_workbench all_fail) demo_hw))) =
     [demo_value (Fin 1) (Fin 2) (Fin 0)] \<and>
   \<not> use_dummy demo_gripper_hw \<and>
   (1::nat) < length (joints demo_gripper_hw) \<and>
   map state (joints demo_gripper_hw) =
     [demo_value (Fin 1) (Fin 0) (Fin 0), demo_value (Fin 1) (Fin 0) (Fin 0)] \<and>
   bus_data (demo_workbench all_fail\<lparr>bus_data := demo_first_only\<rparr>)
     (history_at_position (demo_workbench all_fail\<lparr>bus_data := demo_first_only\<rparr>)
        demo_gripper_hw)
     (extraction demo_gripper_hw kPresentPositionItem) 1 = None \<and>
   bus_data (demo_workbench all_fail\<lparr>bus_data := demo_first_only\<rparr>)
     (history_at_velocity (demo_workbench all_fail\<lparr>bus_data := demo_first_only\<rparr>)
        demo_gripper_hw)
     (extraction demo_gripper_hw kPresentVelocityItem) 1 = None \<and>
   bus_data (demo_workbench all_fail\<lparr>bus_data := demo_first_only\<rparr>)
     (history_at_current (demo_workbench all_fail\<lparr>bus_data := demo_first_only\<rparr>)
        demo_gripper_hw)
     (extraction demo_gripper_hw kPresentCurrentItem) 1 = None \<and>
   map ev_ok (bus_log (snd (read (demo_workbench all_fail\<lparr>bus_data := demo_first_only\<rparr>)
     demo_gripper_hw))) = [False, False, False, False] \<and>
   map state (joints (snd (read (demo_workbench all_fail\<lparr>bus_data := demo_first_only\<rparr>)
     demo_gripper_hw))) =
     [demo_value (Fin 1) (Fin 1) (Fin 1), demo_value (Fin 0) (Fin 0) (Fin 0)]"
  using read_failure [of "demo_workbench all_fail" demo_hw
      "[(demo_arm (Fin 2) (Fin 0))\<lparr>state := demo_value (Fin 7) (Fin 7) (Fin 7)\<rparr>]"
      demo_gripper_hw 1 "demo_workbench all_fail\<lparr>bus_data := demo_first_only\<rparr>"]
  by (simp add: stores_nothing_def demo_defs demo_first_only_def read_defs call_def
        read_history_defs Let_def split_def)

subsection \<open>Virtual joint loop-back\<close>

text \<open>
  Claim C7 (virtual joint loop-back), as amended.  After every \<open>write\<close> call, in every mode
  and whatever the call returns, the state of each virtual joint is the command that joint
  held when \<open>write\<close> was called, and its command is either that same command or the result
  of \<open>reset_command\<close> on it.  The command is unchanged, so that state and command are equal
  after the call, in dummy mode, with torque disabled, in a cycle rejected for an effort
  command, and in a cycle in which no transition is due (the group is in the mode the
  commands ask for and the gripper block has nothing to do).  In the remaining cycles,
  with torque enabled and a transition due, a bus that accepts every call re-enables
  torque and the command is reset.
\<close>

theorem virtual_loop_back:
  "map state (virtual_joints (snd (write' w s))) = map command (virtual_joints s) \<and>
   map name (virtual_joints (snd (write' w s))) = map name (virtual_joints s) \<and>
   (virtual_joints (snd (write' w s)) = map loop_back (virtual_joints s) \<or>
    virtual_joints (snd (write' w s)) = map reset_joint (map loop_back (virtual_joints s))) \<and>
   (use_dummy s \<or> \<not> torque_enabled s \<or>
    \<not> velocity_commanded s \<and> effort_commanded s \<or>
    control_mode s = target_mode s \<and> \<not> gripper_due False s \<longrightarrow>
      map command (virtual_joints (snd (write' w s))) = map command (virtual_joints s) \<and>
      map state (virtual_joints (snd (write' w s))) =
      map command (virtual_joints (snd (write' w s)))) \<and>
   (accepts_all v \<and> \<not> use_dummy t \<and> torque_enabled t \<and>
    (velocity_commanded t \<or> \<not> effort_commanded t) \<and>
    (control_mode t \<noteq> target_mode t \<or> gripper_due False t) \<longrightarrow>
      virtual_joints (snd (write' v t)) = map reset_joint (map loop_back (virtual_joints t)))"
proof (intro conjI impI)
  have l: "map state (virtual_joints (looped s)) = map command (virtual_joints s)"
    "map name (virtual_joints (looped s)) = map name (virtual_joints s)"
    by (simp_all add: looped_fields state_loop_back loop_back_fields comp_def)
  have k: "map state (virtual_joints (snd (write' w s))) = map state (virtual_joints (looped s)) \<and>
    map name (virtual_joints (snd (write' w s))) = map name (virtual_joints (looped s))"
    using write_virtual_joints(1) [of s w]
      kept_or_reset_states(2,4) [of "looped s" "snd (write' w s)"]
    by auto
  show "map state (virtual_joints (snd (write' w s))) = map command (virtual_joints s)"
    "map name (virtual_joints (snd (write' w s))) = map name (virtual_joints s)"
    using k l by simp_all
  show "virtual_joints (snd (write' w s)) = map loop_back (virtual_joints s) \<or>
    virtual_joints (snd (write' w s)) = map reset_joint (map loop_back (virtual_joints s))"
    using write_virtual_joints(1) [of s w]
    by (auto simp: commands_kept_or_reset_def looped_fields)
next
  assume a: "use_dummy s \<or> \<not> torque_enabled s \<or>
    \<not> velocity_commanded s \<and> effort_commanded s \<or>
    control_mode s = target_mode s \<and> \<not> gripper_due False s"
  have v: "virtual_joints (snd (write' w s)) = map loop_back (virtual_joints s)"
    using a by (rule write_virtual_kept)
  show "map command (virtual_joints (snd (write' w s))) = map command (virtual_joints s)"
    by (simp add: v loop_back_fields comp_def)
  show "map state (virtual_joints (snd (write' w s))) =
      map command (virtual_joints (snd (write' w s)))"
    by (simp add: v state_loop_back loop_back_fields comp_def)
next
  assume "accepts_all v \<and> \<not> use_dummy t \<and> torque_enabled t \<and>
    (velocity_commanded t \<or> \<not> effort_commanded t) \<and>
    (control_mode t \<noteq> target_mode t \<or> gripper_due False t)"
  then show "virtual_joints (snd (write' v t)) =
      map reset_joint (map loop_back (virtual_joints t))"
    using write_virtual_reset [of v t] by blast
qed

text \<open>
  Claim C7 as stated fails: the virtual joint is commanded the velocity 2.0 and the effort
  3.0; \<open>write\<close> copies them into its state, then the transition to Velocity mode
  re-enables torque and resets its command, so that state and command differ after the
  call.
\<close>

theorem virtual_loop_back_counterexample:
  "map state (virtual_joints (snd (write' (demo_workbench all_succeed) demo_hw))) =
     [demo_value (Fin 1) (Fin 2) (Fin 3)] \<and>
   map command (virtual_joints (snd (write' (demo_workbench all_succeed) demo_hw))) =
     [demo_value (Fin 1) (Fin 0) (Fin 0)]"
  by (simp add: write_defs op_defs demo_defs)

text \<open>
  Claim C7 as amended.  With torque enabled and the group already in Velocity mode, the
  state equals the command after the call; with torque enabled and the group in Position
  mode, the transition resets the command.
\<close>

theorem virtual_loop_back_witness:
  "torque_enabled (demo_hw\<lparr>control_mode := Velocity\<rparr>) \<and>
   control_mode (demo_hw\<lparr>control_mode := Velocity\<rparr>) =
     target_mode (demo_hw\<lparr>control_mode := Velocity\<rparr>) \<and>
   \<not> gripper_due False (demo_hw\<lparr>control_mode := Velocity\<rparr>) \<and>
   map command (virtual_joints (demo_hw\<lparr>control_mode := Velocity\<rparr>)) =
     [demo_value (Fin 1) (Fin 2) (Fin 3)] \<and>
   map state (virtual_joints (snd (write' (demo_workbench all_succeed)
       (demo_hw\<lparr>control_mode := Velocity\<rparr>)))) =
     [demo_value (Fin 1) (Fin 2) (Fin 3)] \<and>
   map command (virtual_joints (snd (write' (demo_workbench all_succeed)
       (demo_hw\<lparr>control_mode := Velocity\<rparr>)))) =
     [demo_value (Fin 1) (Fin 2) (Fin 3)] \<and>
   accepts_all (demo_workbench all_succeed) \<and>
   \<not> use_dummy demo_hw \<and> torque_enabled demo_hw \<and> velocity_commanded demo_hw \<and>
   control_mode demo_hw \<noteq> target_mode demo_hw \<and>
   map state (virtual_joints (snd (write' (demo_workbench all_succeed) demo_hw))) =
     [demo_value (Fin 1) (Fin 2) (Fin 3)] \<and>
   map command (virtual_joints (snd (write' (demo_workbench all_succeed) demo_hw))) =
     [demo_value (Fin 1) (Fin 0) (Fin 0)]"
  using virtual_loop_back [of "demo_workbench all_succeed" "demo_hw\<lparr>control_mode := Velocity\<rparr>"
      "demo_workbench all_succeed" demo_hw]
  by (simp add: write_defs op_defs demo_defs accepts_all_def velocity_commanded_def
        effort_commanded_def target_mode_def gripper_due_def)

subsection \<open>Reset of the commands on the rising torque edge\<close>

text \<open>
  Claim C8 (\<open>reset_command\<close> on the rising torque edge).  \<open>enable_torque(true)\<close> with the
  tracked flag already set returns \<open>OK\<close> and changes nothing: no bus call, no
  \<open>reset_command\<close>.  \<open>enable_torque(true)\<close> with the flag clear, when it succeeds, leaves
  every device-backed and every virtual joint with \<open>command.position\<close> equal to its
  (unchanged) \<open>state.position\<close> and with \<open>command.velocity\<close> and \<open>command.effort\<close> equal to
  \<open>0.0\<close>.
\<close>

theorem torque_edge_reset:
  "(torque_enabled s \<longrightarrow> enable_torque w True s = (OK, s)) \<and>
   (\<not> torque_enabled t \<and> fst (enable_torque w True t) = OK \<longrightarrow>
      (\<forall>j \<in> set (joints (snd (enable_torque w True t))) \<union>
             set (virtual_joints (snd (enable_torque w True t))).
         position (command j) = position (state j) \<and>
         velocity (command j) = Fin 0 \<and> effort (command j) = Fin 0) \<and>
      map state (joints (snd (enable_torque w True t))) = map state (joints t) \<and>
      map state (virtual_joints (snd (enable_torque w True t))) = map state (virtual_joints t) \<and>
      torque_enabled (snd (enable_torque w True t)))"
proof (intro conjI impI)
  assume "torque_enabled s"
  then show "enable_torque w True s = (OK, s)"
    by (cases rule: enable_torque_cases [of True s w]) simp_all
next
  assume a: "\<not> torque_enabled t \<and> fst (enable_torque w True t) = OK"
  then have j: "joints (snd (enable_torque w True t)) = map reset_joint (joints t)"
    "virtual_joints (snd (enable_torque w True t)) = map reset_joint (virtual_joints t)"
    by (simp_all add: enable_torque_joints)
  show "\<forall>j \<in> set (joints (snd (enable_torque w True t))) \<union>
             set (virtual_joints (snd (enable_torque w True t))).
         position (command j) = position (state j) \<and>
         velocity (command j) = Fin 0 \<and> effort (command j) = Fin 0"
    by (auto simp: j reset_joint_fields)
  show "map state (joints (snd (enable_torque w True t))) = map state (joints t)"
    "map state (virtual_joints (snd (enable_torque w True t))) = map state (virtual_joints t)"
    by (simp_all add: j reset_joint_fields)
  show "torque_enabled (snd (enable_torque w True t))"
    using a by (simp add: enable_torque_flag)
qed

text \<open>
  Claim C8: with torque enabled nothing changes, although \<open>reset_command\<close> would change
  the commands; with torque disabled the commands are reset.
\<close>

theorem torque_edge_reset_witness:
  "torque_enabled demo_hw \<and>
   enable_torque (demo_workbench all_succeed) True demo_hw = (OK, demo_hw) \<and>
   map command (joints demo_hw) = [demo_value (Fin 1) (Fin 2) (Fin 0)] \<and>
   map command (joints (snd (reset_command demo_hw))) = [demo_value (Fin 1) (Fin 0) (Fin 0)] \<and>
   \<not> torque_enabled (demo_hw\<lparr>torque_enabled := False\<rparr>) \<and>
   fst (enable_torque (demo_workbench all_succeed) True (demo_hw\<lparr>torque_enabled := False\<rparr>))
     = OK \<and>
   map command (joints (snd (enable_torque (demo_workbench all_succeed) True
       (demo_hw\<lparr>torque_enabled := False\<rparr>)))) = [demo_value (Fin 1) (Fin 0) (Fin 0)] \<and>
   map command (virtual_joints (snd (enable_torque (demo_workbench all_succeed) True
       (demo_hw\<lparr>torque_enabled := False\<rparr>)))) = [demo_value (Fin 0) (Fin 0) (Fin 0)] \<and>
   map state (virtual_joints (snd (enable_torque (demo_workbench all_succeed) True
       (demo_hw\<lparr>torque_enabled := False\<rparr>)))) = [demo_value (Fin 0) (Fin 0) (Fin 0)]"
  using torque_edge_reset [of demo_hw "demo_workbench all_succeed"
      "demo_hw\<lparr>torque_enabled := False\<rparr>"]
  by (simp add: op_defs demo_defs)

subsection \<open>Partition of the joints in \<open>configure\<close>\<close>

text \<open>
  Claim C9 (inconsistent partition of the joints), as amended.  The counting pass counts
  a joint as virtual when the key \<open>is_virtual\<close> is present, the assignment loop treats it
  as virtual when the value is exactly \<open>true\<close>.  When every present value is \<open>true\<close>, no
  index of the assignment loop is out of bounds.  When some joint has the key with another
  value, the assignment loop never runs to its end; and when moreover the id (and, for the
  gripper, the current limit) of every joint the loop treats as device-backed converts
  without throwing, it stops because the device-backed index reaches the allocated size:
  the guarded lookup fails at index \<open>num_joints\<close>.  (Otherwise a missing or malformed id
  may throw first.)
\<close>

theorem configure_partition:
  "((\<forall>c\<in>set cfg. counted_virtual c \<longrightarrow> assigned_virtual c) \<longrightarrow>
      \<not> is_index_error (configure_joints L cfg s)) \<and>
   ((\<exists>c\<in>set cfg'. counted_virtual c \<and> \<not> assigned_virtual c) \<longrightarrow>
      isl (configure_joints L cfg' s')) \<and>
   ((\<exists>c\<in>set cfg'. counted_virtual c \<and> \<not> assigned_virtual c) \<and>
    (\<forall>c\<in>set cfg'. \<not> assigned_virtual c \<longrightarrow> device_parameters_parse L c) \<longrightarrow>
      configure_joints L cfg' s' =
        Inl (joint_index_out_of_bounds (length (filter (\<lambda>c. \<not> counted_virtual c) cfg'))))"
proof (intro conjI impI)
  assume a: "\<forall>c\<in>set cfg. counted_virtual c \<longrightarrow> assigned_virtual c"
  have n: "length (filter (\<lambda>c. \<not> assigned_virtual c) cfg) =
      length (filter (\<lambda>c. \<not> counted_virtual c) cfg)"
    using count_split [of cfg] count_mismatch_zero [OF a] by simp
  show "\<not> is_index_error (configure_joints L cfg s)"
    unfolding configure_joints_unfold
    by (rule assign_joints_in_bounds) (simp_all add: length_resize n count_virtual_le)
next
  assume a: "\<exists>c\<in>set cfg'. counted_virtual c \<and> \<not> assigned_virtual c"
  have n: "length (filter (\<lambda>c. \<not> counted_virtual c) cfg') <
      length (filter (\<lambda>c. \<not> assigned_virtual c) cfg')"
    using count_split [of cfg'] count_mismatch_pos [of cfg'] a by simp
  show "isl (configure_joints L cfg' s')"
    unfolding configure_joints_unfold
    using n by (intro assign_joints_never_completes) (simp_all add: length_resize)
next
  assume a: "(\<exists>c\<in>set cfg'. counted_virtual c \<and> \<not> assigned_virtual c) \<and>
    (\<forall>c\<in>set cfg'. \<not> assigned_virtual c \<longrightarrow> device_parameters_parse L c)"
  have n: "length (filter (\<lambda>c. \<not> counted_virtual c) cfg') <
      length (filter (\<lambda>c. \<not> assigned_virtual c) cfg')"
    using count_split [of cfg'] count_mismatch_pos [of cfg'] a by simp
  show "configure_joints L cfg' s' =
        Inl (joint_index_out_of_bounds (length (filter (\<lambda>c. \<not> counted_virtual c) cfg')))"
    unfolding configure_joints_unfold
    using a n by (intro assign_joints_overflow) (simp_all add: length_resize count_virtual_le)
qed

text \<open>
  Claim C9 as stated fails: one joint marked \<open>is_virtual = True\<close> (not \<open>true\<close>) and, being
  meant as virtual, without an id.  The counting pass allocates no device-backed joint,
  the assignment loop takes the device-backed branch, and \<open>parameters.at("id")\<close> throws
  before any vector is subscripted: the index never exceeds the allocated size.
\<close>

theorem configure_partition_counterexample:
  "counted_virtual (demo_info ''wheel'' [(''is_virtual'', ''True'')]) \<and>
   \<not> assigned_virtual (demo_info ''wheel'' [(''is_virtual'', ''True'')]) \<and>
   configure_joints demo_library [demo_info ''wheel'' [(''is_virtual'', ''True'')]] empty_hw =
     Inl (map_at_out_of_range ''id'')"
  by (simp add: configure_defs)

text \<open>
  Claim C9 as amended: an arm and a virtual joint marked \<open>true\<close> are assigned in bounds;
  an arm and a joint marked \<open>false\<close>, both with ids, overflow the one allocated slot.
\<close>

theorem configure_partition_witness:
  "counted_virtual (demo_info ''wheel'' [(''is_virtual'', ''true'')]) \<and>
   assigned_virtual (demo_info ''wheel'' [(''is_virtual'', ''true'')]) \<and>
   \<not> counted_virtual (demo_info ''arm'' [(''id'', ''1'')]) \<and>
   map name (joints (projr (configure_joints demo_library
      [demo_info ''arm'' [(''id'', ''1'')], demo_info ''wheel'' [(''is_virtual'', ''true'')]]
      empty_hw))) = [''arm''] \<and>
   map name (virtual_joints (projr (configure_joints demo_library
      [demo_info ''arm'' [(''id'', ''1'')], demo_info ''wheel'' [(''is_virtual'', ''true'')]]
      empty_hw))) = [''wheel''] \<and>
   counted_virtual (demo_info ''wrist'' [(''id'', ''2''), (''is_virtual'', ''false'')]) \<and>
   \<not> assigned_virtual (demo_info ''wrist'' [(''id'', ''2''), (''is_virtual'', ''false'')]) \<and>
   device_parameters_parse demo_library (demo_info ''arm'' [(''id'', ''1'')]) \<and>
   device_parameters_parse demo_library
     (demo_info ''wrist'' [(''id'', ''2''), (''is_virtual'', ''false'')]) \<and>
   configure_joints demo_library
      [demo_info ''arm'' [(''id'', ''1'')],
       demo_info ''wrist'' [(''id'', ''2''), (''is_virtual'', ''false'')]] empty_hw =
     Inl (joint_index_out_of_bounds 1)"
  using configure_partition [of
      "[demo_info ''arm'' [(''id'', ''1'')], demo_info ''wheel'' [(''is_virtual'', ''true'')]]"
      demo_library empty_hw
      "[demo_info ''arm'' [(''id'', ''1'')],
        demo_info ''wrist'' [(''id'', ''2''), (''is_virtual'', ''false'')]]" empty_hw]
  by (simp add: configure_defs)

subsection \<open>NaN commands\<close>

text \<open>
  Claim C10 (NaN counts as nonzero), as amended.  Outside dummy mode, a NaN in some
  device-backed joint's \<open>command.velocity\<close> makes \<open>write\<close> take the velocity branch: it
  returns \<open>OK\<close> after exactly one sync write on the goal-velocity handler, whose values are
  the conversions of the velocities held after \<open>set_control_mode(Velocity)\<close>; these are the
  commanded ones, the NaN included, whenever torque is disabled (as it is until the first
  \<open>reset_command\<close>) or no transition is due.  When all device-backed velocities compare
  equal to zero and some \<open>command.effort\<close> is NaN, \<open>write\<close> returns \<open>ERROR\<close> without any
  bus call.
\<close>

theorem nan_is_nonzero:
  "(\<not> use_dummy s \<and> length (joint_ids s) = length (joints s) \<and>
    (\<exists>j\<in>set (joints s). velocity (command j) = NaN) \<longrightarrow>
      fst (write' w s) = OK \<and>
      (\<exists>js. (js = joints s \<or> js = map reset_joint (joints s)) \<and>
            sync_writes (new_events s (snd (write' w s))) =
              [SyncWrite kGoalVelocityIndex (joint_ids s)
                 (raw_commands w (convertVelocity2Value w) velocity (joint_ids s) js)]) \<and>
      (\<not> torque_enabled s \<or>
       control_mode s = Velocity \<and>
       (gripper_id s = 255 \<or> gripper_control_mode s = CurrentBasedPosition) \<longrightarrow>
         sync_writes (new_events s (snd (write' w s))) =
           [SyncWrite kGoalVelocityIndex (joint_ids s)
              (raw_commands w (convertVelocity2Value w) velocity (joint_ids s) (joints s))])) \<and>
   (\<not> use_dummy t \<and> (\<forall>j\<in>set (joints t). eq_zero (velocity (command j))) \<and>
    (\<exists>j\<in>set (joints t). effort (command j) = NaN) \<longrightarrow>
      fst (write' w t) = ERROR \<and> bus_log (snd (write' w t)) = bus_log t)"
proof (intro conjI impI)
  assume a: "\<not> use_dummy s \<and> length (joint_ids s) = length (joints s) \<and>
    (\<exists>j\<in>set (joints s). velocity (command j) = NaN)"
  then have v: "\<exists>j\<in>set (joints s). ne_zero (velocity (command j))" by force
  note b = write_velocity_branch [of s w, unfolded Let_def, OF _ v]
  from a b show "fst (write' w s) = OK" by simp
  from a b show "\<exists>js. (js = joints s \<or> js = map reset_joint (joints s)) \<and>
            sync_writes (new_events s (snd (write' w s))) =
              [SyncWrite kGoalVelocityIndex (joint_ids s)
                 (raw_commands w (convertVelocity2Value w) velocity (joint_ids s) js)]"
    by blast
  assume "\<not> torque_enabled s \<or>
       control_mode s = Velocity \<and>
       (gripper_id s = 255 \<or> gripper_control_mode s = CurrentBasedPosition)"
  with a b show "sync_writes (new_events s (snd (write' w s))) =
           [SyncWrite kGoalVelocityIndex (joint_ids s)
              (raw_commands w (convertVelocity2Value w) velocity (joint_ids s) (joints s))]"
    by auto
next
  assume a: "\<not> use_dummy t \<and> (\<forall>j\<in>set (joints t). eq_zero (velocity (command j))) \<and>
    (\<exists>j\<in>set (joints t). effort (command j) = NaN)"
  then have e: "\<exists>j\<in>set (joints t). ne_zero (effort (command j))" by force
  from a e show "fst (write' w t) = ERROR" by (simp add: write_effort_unfold)
  from a e show "bus_log (snd (write' w t)) = bus_log t"
    by (simp add: write_effort_unfold looped_fields)
qed

text \<open>
  Claim C10 as stated fails: torque is enabled and the group is in Position mode, the arm's
  commanded velocity is NaN; the velocity branch is taken, but the transition resets the
  commands and the value converted is 0.0 (raw 0), not the NaN (raw 2).
\<close>

theorem nan_is_nonzero_counterexample:
  "velocity (command (demo_arm NaN (Fin 0))) = NaN \<and>
   sync_writes (bus_log (snd (write' (demo_workbench all_succeed)
      (demo_hw\<lparr>joints := [demo_arm NaN (Fin 0)]\<rparr>)))) =
     [SyncWrite kGoalVelocityIndex [1] [0]] \<and>
   convertVelocity2Value (demo_workbench all_succeed) 1
     (static_cast_float (demo_workbench all_succeed) NaN) = 2"
  by (simp add: write_defs op_defs demo_defs)

text \<open>
  Claim C10 as amended: with torque disabled the NaN velocity is converted (raw 2); a NaN
  effort with zero velocity is rejected.
\<close>

theorem nan_is_nonzero_witness:
  "\<not> use_dummy (demo_hw\<lparr>joints := [demo_arm NaN (Fin 0)], torque_enabled := False\<rparr>) \<and>
   velocity (command (demo_arm NaN (Fin 0))) = NaN \<and>
   \<not> torque_enabled (demo_hw\<lparr>joints := [demo_arm NaN (Fin 0)], torque_enabled := False\<rparr>) \<and>
   fst (write' (demo_workbench all_succeed)
      (demo_hw\<lparr>joints := [demo_arm NaN (Fin 0)], torque_enabled := False\<rparr>)) = OK \<and>
   sync_writes (new_events (demo_hw\<lparr>joints := [demo_arm NaN (Fin 0)], torque_enabled := False\<rparr>)
      (snd (write' (demo_workbench all_succeed)
         (demo_hw\<lparr>joints := [demo_arm NaN (Fin 0)], torque_enabled := False\<rparr>)))) =
     [SyncWrite kGoalVelocityIndex [1] [2]] \<and>
   \<not> use_dummy (demo_hw\<lparr>joints := [demo_arm (Fin 0) NaN]\<rparr>) \<and>
   eq_zero (velocity (command (demo_arm (Fin 0) NaN))) \<and>
   effort (command (demo_arm (Fin 0) NaN)) = NaN \<and>
   fst (write' (demo_workbench all_succeed) (demo_hw\<lparr>joints := [demo_arm (Fin 0) NaN]\<rparr>))
     = ERROR \<and>
   bus_log (snd (write' (demo_workbench all_succeed)
      (demo_hw\<lparr>joints := [demo_arm (Fin 0) NaN]\<rparr>))) = []"
  using nan_is_nonzero [of
      "demo_hw\<lparr>joints := [demo_arm NaN (Fin 0)], torque_enabled := False\<rparr>"
      "demo_workbench all_succeed" "demo_hw\<lparr>joints := [demo_arm (Fin 0) NaN]\<rparr>"]
  by (simp add: write_defs op_defs eq_zero_def demo_defs)

end
